theory Spec2Isabelle
  imports Complex_Main "HOL-Library.Word"
begin

unbundle bit_operations_syntax

section \<open>JavaScript values used by the token model\<close>

text \<open>
  Strings are \<^typ>\<open>string\<close>; a character stands for one UTF-16 code unit below 256.
  The free-form parts of a token (\<open>what\<close>, \<open>where\<close>, \<open>metadata\<close>) are JSON-like
  values. An object is the list of its own properties in enumeration order, which is
  the order \<open>JSON.stringify\<close> follows. A number \<open>JNum n\<close> stands for an integer of
  magnitude below \<open>10^21\<close> that is a binary64 number: those are the integers that
  \<open>JSON.stringify\<close> prints in plain decimal notation, and \<open>ser\<close> is meant for them only.
\<close>

datatype json =
    JUndefined
  | JNull
  | JBool bool
  | JNum int
  | JStr string
  | JArr "json list"
  | JObj "(string \<times> json) list"

text \<open>Truthiness of a value, as used by \<open>x ? a : b\<close>, \<open>x || y\<close> and \<open>x && y\<close>.\<close>

fun truthy :: "json \<Rightarrow> bool" where
  "truthy JUndefined = False"
| "truthy JNull = False"
| "truthy (JBool b) = b"
| "truthy (JNum n) = (n \<noteq> 0)"
| "truthy (JStr s) = (s \<noteq> [])"
| "truthy (JArr xs) = True"
| "truthy (JObj kvs) = True"

text \<open>An optional string property (\<open>undefined\<close> or a string) is truthy when it is a
  non-empty string.\<close>

definition truthy_str :: "string option \<Rightarrow> bool" where
  "truthy_str s = (case s of None \<Rightarrow> False | Some x \<Rightarrow> x \<noteq> [])"

text \<open>Property read \<open>v?.k\<close>: only an object has own properties \<open>to\<close> or \<open>action\<close>.\<close>

fun js_get :: "json \<Rightarrow> string \<Rightarrow> json" where
  "js_get (JObj kvs) k = (case map_of kvs k of None \<Rightarrow> JUndefined | Some v \<Rightarrow> v)"
| "js_get v k = JUndefined"

subsection \<open>Number and string rendering\<close>

definition hexdigit :: "nat \<Rightarrow> char" where
  "hexdigit d = ''0123456789abcdef'' ! (d mod 16)"

fun toString16 :: "nat \<Rightarrow> string" where
  "toString16 n = (if n < 16 then [hexdigit n] else toString16 (n div 16) @ [hexdigit (n mod 16)])"

fun toString10 :: "nat \<Rightarrow> string" where
  "toString10 n = (if n < 10 then [hexdigit n] else toString10 (n div 10) @ [hexdigit (n mod 10)])"

definition padStart :: "nat \<Rightarrow> char \<Rightarrow> string \<Rightarrow> string" where
  "padStart n c s = replicate (n - length s) c @ s"

definition num_string :: "int \<Rightarrow> string" where
  "num_string i = (if i < 0 then CHR ''-'' # toString10 (nat (- i)) else toString10 (nat i))"

text \<open>\<open>JSON.stringify\<close> of a string: quotes, with the quote, the backslash and the
  control characters escaped.\<close>

definition quote_char :: "char \<Rightarrow> string" where
  "quote_char c =
     (if c = CHR 0x22 then [CHR 0x5C, CHR 0x22]
      else if c = CHR 0x5C then [CHR 0x5C, CHR 0x5C]
      else if c = CHR 0x08 then [CHR 0x5C, CHR ''b'']
      else if c = CHR 0x0C then [CHR 0x5C, CHR ''f'']
      else if c = CHR 0x0A then [CHR 0x5C, CHR ''n'']
      else if c = CHR 0x0D then [CHR 0x5C, CHR ''r'']
      else if c = CHR 0x09 then [CHR 0x5C, CHR ''t'']
      else if (of_char c :: nat) < 32
        then [CHR 0x5C, CHR ''u''] @ padStart 4 CHR ''0'' (toString16 (of_char c))
      else [c])"

definition quote :: "string \<Rightarrow> string" where
  "quote s = [CHR 0x22] @ concat (map quote_char s) @ [CHR 0x22]"

fun join :: "string \<Rightarrow> string list \<Rightarrow> string" where
  "join sep [] = []"
| "join sep [x] = x"
| "join sep (x # y # ys) = x @ sep @ join sep (y # ys)"

text \<open>\<open>JSON.stringify\<close> of a value other than \<open>undefined\<close>: a property whose value is
  \<open>undefined\<close> is left out of an object, and \<open>undefined\<close> in an array is written
  \<open>null\<close>.\<close>

fun ser :: "json \<Rightarrow> string" where
  "ser JUndefined = ''null''"
| "ser JNull = ''null''"
| "ser (JBool b) = (if b then ''true'' else ''false'')"
| "ser (JNum n) = num_string n"
| "ser (JStr s) = quote s"
| "ser (JArr xs) = ''['' @ join '','' (map ser xs) @ '']''"
| "ser (JObj kvs) =
     ''{'' @ join '','' (map (\<lambda>kv. quote (fst kv) @ '':'' @ ser (snd kv))
                          (filter (\<lambda>kv. snd kv \<noteq> JUndefined) kvs)) @ ''}''"

section \<open>tibet.ts: tokens, digest, store\<close>

datatype TIBETTokenType =
  bilateral_consent | unilateral_action | verification | revocation | delegation | audit | threat

datatype TIBETState = CREATED | PROPOSED | ACCEPTED | REJECTED | EXPIRED | REVOKED

fun type_name :: "TIBETTokenType \<Rightarrow> string" where
  "type_name bilateral_consent = ''bilateral_consent''"
| "type_name unilateral_action = ''unilateral_action''"
| "type_name verification = ''verification''"
| "type_name revocation = ''revocation''"
| "type_name delegation = ''delegation''"
| "type_name audit = ''audit''"
| "type_name threat = ''threat''"

record WWWwProvenance =
  what :: json
  with' :: "string list option"
  where' :: "(string \<times> json) list option"
  why :: string

text \<open>
  \<open>expiresAt\<close> is an ISO-8601 string in the source; the only things done with it are
  the truthiness test and \<open>new Date(expiresAt)\<close>. The model keeps the date that the
  string denotes: \<open>None\<close> is an absent (or empty) string, \<open>InvalidDate\<close> a non-empty
  string that does not parse, \<open>TimeValue t\<close> the instant \<open>t\<close> in milliseconds since the
  epoch, which \<open>toISOString\<close> writes and \<open>new Date\<close> reads back exactly.
\<close>

datatype Date = TimeValue int | InvalidDate

record TIBETToken =
  tokenId :: string
  type' :: TIBETTokenType
  actor :: string
  provenance :: WWWwProvenance
  timestamp :: string
  state :: TIBETState
  signature :: string
  parentId :: "string option"
  expiresAt :: "Date option"
  metadata :: "(string \<times> json) list option"

datatype js_error = Error string | RangeError string

subsection \<open>generateSignature\<close>

text \<open>
  With \<open>crypto.subtle\<close> the digest is the hexadecimal SHA-256 of the data, a platform
  primitive taken as the parameter \<open>sha\<close>; without it (\<open>sha = None\<close>) the source's own
  32-bit rolling hash is used. \<open>(hash << 5) - hash + char\<close> followed by \<open>hash & hash\<close>
  is arithmetic modulo \<open>2^32\<close> read as a signed value.
\<close>

definition hash_step :: "32 word \<Rightarrow> char \<Rightarrow> 32 word" where
  "hash_step hash c = (push_bit 5 hash - hash) + of_nat (of_char c)"

definition fallback_hash :: "string \<Rightarrow> 32 word" where
  "fallback_hash data = fold (\<lambda>c hash. hash_step hash c) data 0"

definition generateSignature :: "(string \<Rightarrow> string) option \<Rightarrow> string \<Rightarrow> string" where
  "generateSignature sha data =
     (case sha of
        Some sha256_hex \<Rightarrow> sha256_hex data
      | None \<Rightarrow> padStart 16 CHR ''0'' (toString16 (nat \<bar>sint (fallback_hash data)\<bar>)))"

subsection \<open>The canonical fields\<close>

definition provenance_json :: "WWWwProvenance \<Rightarrow> json" where
  "provenance_json p =
     JObj [(''what'', what p),
           (''with'', case with' p of None \<Rightarrow> JUndefined | Some xs \<Rightarrow> JArr (map JStr xs)),
           (''where'', case where' p of None \<Rightarrow> JUndefined | Some kvs \<Rightarrow> JObj kvs),
           (''why'', JStr (why p))]"

text \<open>The object literal \<open>tokenData\<close> of \<open>createToken\<close> and of \<open>verify\<close>: the same six
  properties in the same order.\<close>

definition tokenData ::
  "string \<Rightarrow> TIBETTokenType \<Rightarrow> string \<Rightarrow> WWWwProvenance \<Rightarrow> string \<Rightarrow> string option \<Rightarrow> json" where
  "tokenData tid ty act prov ts par =
     JObj [(''tokenId'', JStr tid),
           (''type'', JStr (type_name ty)),
           (''actor'', JStr act),
           (''provenance'', provenance_json prov),
           (''timestamp'', JStr ts),
           (''parentId'', case par of None \<Rightarrow> JUndefined | Some q \<Rightarrow> JStr q)]"

subsection \<open>The store\<close>

text \<open>
  Tokens are objects shared by reference between the store, the proposal index and
  the callers. The heap is the list of all token objects allocated so far, a reference
  is an index into it, and the store maps an identifier to a reference.
\<close>

type_synonym ref = nat
type_synonym heap = "TIBETToken list"

record TIBET =
  tokens :: "string \<rightharpoonup> ref"
  defaultActor :: string

text \<open>\<open>x || d\<close> on an optional string.\<close>

definition or_default :: "string option \<Rightarrow> string \<Rightarrow> string" where
  "or_default x d = (case x of None \<Rightarrow> d | Some a \<Rightarrow> if a = [] then d else a)"

definition new_TIBET :: "string option \<Rightarrow> TIBET" where
  "new_TIBET act = \<lparr>tokens = Map.empty, defaultActor = or_default act ''anonymous''\<rparr>"

record createToken_params =
  p_type :: TIBETTokenType
  p_what :: json
  p_with :: "string list option"
  p_where :: "(string \<times> json) list option"
  p_why :: string
  p_actor :: "string option"
  p_parentId :: "string option"
  p_expiresIn :: "int option"
  p_metadata :: "(string \<times> json) list option"

text \<open>What the environment supplies to one \<open>createToken\<close> call: the generated
  identifier, \<open>new Date().toISOString()\<close> and \<open>Date.now()\<close>.\<close>

record create_env =
  uuid :: string
  now_iso :: string
  date_now :: int

text \<open>
  \<open>params.expiresIn ? new Date(Date.now() + params.expiresIn).toISOString() : undefined\<close>,
  with the duration an integer number of milliseconds. \<open>toISOString\<close> throws a
  \<open>RangeError\<close> on a date outside the range of time values.
\<close>

definition expiry :: "int \<Rightarrow> int option \<Rightarrow> js_error + Date option" where
  "expiry now e =
     (case e of
        None \<Rightarrow> Inr None
      | Some d \<Rightarrow>
          if d = 0 then Inr None
          else if \<bar>now + d\<bar> \<le> 8640000000000000 then Inr (Some (TimeValue (now + d)))
          else Inl (RangeError ''Invalid time value''))"

definition createToken ::
  "(string \<Rightarrow> string) option \<Rightarrow> create_env \<Rightarrow> heap \<Rightarrow> TIBET \<Rightarrow> createToken_params
     \<Rightarrow> (js_error + ref) \<times> heap \<times> TIBET" where
  "createToken sha env h s params =
     (let tid = uuid env;
          ts = now_iso env;
          act = or_default (p_actor params) (defaultActor s);
          prov = \<lparr>what = p_what params, with' = p_with params,
                  where' = p_where params, why = p_why params\<rparr>;
          sig = generateSignature sha
                  (ser (tokenData tid (p_type params) act prov ts (p_parentId params)))
      in case expiry (date_now env) (p_expiresIn params) of
           Inl err \<Rightarrow> (Inl err, h, s)
         | Inr ex \<Rightarrow>
             (let token = \<lparr>tokenId = tid, type' = p_type params, actor = act,
                           provenance = prov, timestamp = ts, state = CREATED,
                           signature = sig, parentId = p_parentId params,
                           expiresAt = ex, metadata = p_metadata params\<rparr>
              in (Inr (length h), h @ [token], s\<lparr>tokens := (tokens s)(tid \<mapsto> length h)\<rparr>)))"

text \<open>The token object that \<open>createToken\<close> builds once the expiry \<open>ex\<close> is computed.\<close>

definition created_token ::
  "(string \<Rightarrow> string) option \<Rightarrow> create_env \<Rightarrow> TIBET \<Rightarrow> createToken_params \<Rightarrow> Date option
     \<Rightarrow> TIBETToken" where
  "created_token sha env s params ex =
     \<lparr>tokenId = uuid env, type' = p_type params,
      actor = or_default (p_actor params) (defaultActor s),
      provenance = \<lparr>what = p_what params, with' = p_with params,
                    where' = p_where params, why = p_why params\<rparr>,
      timestamp = now_iso env, state = CREATED,
      signature = generateSignature sha
        (ser (tokenData (uuid env) (p_type params)
                (or_default (p_actor params) (defaultActor s))
                \<lparr>what = p_what params, with' = p_with params,
                 where' = p_where params, why = p_why params\<rparr>
                (now_iso env) (p_parentId params))),
      parentId = p_parentId params, expiresAt = ex, metadata = p_metadata params\<rparr>"

subsection \<open>verify\<close>

datatype tokenOrId = TokenObj TIBETToken | TokenId string

record VerificationDetails =
  signatureValid :: bool
  notExpired :: bool
  chainIntact :: bool
  actorTrusted :: bool

text \<open>\<open>trustScore\<close> is a JavaScript number: the field holds the exact value of the
  binary64 number that \<open>verify\<close> computes.\<close>

record VerificationResult =
  valid :: bool
  v_tokenId :: string
  trustScore :: real
  details :: VerificationDetails
  error :: "string option"

definition resolve :: "heap \<Rightarrow> TIBET \<Rightarrow> tokenOrId \<Rightarrow> TIBETToken option" where
  "resolve h s tokenOrId =
     (case tokenOrId of
        TokenId i \<Rightarrow> (case tokens s i of None \<Rightarrow> None | Some r \<Rightarrow> Some (h ! r))
      | TokenObj t \<Rightarrow> Some t)"

text \<open>
  JavaScript numbers are IEEE 754 binary64. A finite one is modelled as a pair
  \<open>(m, e)\<close> of integers, with the value \<open>m\<close> times two to the power \<open>e\<close>. The \<open>+\<close> of
  two numbers adds the two values exactly and rounds the sum to 53 significant bits,
  to nearest, ties to the even mantissa. The exponent is not bounded here: overflow
  and gradual underflow, which no sum of the four weights reaches, are left out, and
  so is the sign of zero.
\<close>

type_synonym binary64 = "int \<times> int"

definition value_of :: "binary64 \<Rightarrow> real" where
  "value_of x =
     (if 0 \<le> snd x then of_int (fst x) * 2 ^ nat (snd x)
      else of_int (fst x) / 2 ^ nat (- snd x))"

fun bit_length :: "nat \<Rightarrow> nat" where
  "bit_length n = (if n = 0 then 0 else Suc (bit_length (n div 2)))"

definition round53 :: "int \<Rightarrow> int \<Rightarrow> binary64" where
  "round53 m e =
     (let n = bit_length (nat \<bar>m\<bar>)
      in if n \<le> 53 then (m, e)
         else
           (let k = n - 53;
                q = \<bar>m\<bar> div 2 ^ k;
                r = \<bar>m\<bar> mod 2 ^ k;
                half = 2 ^ (k - 1);
                q' = (if half < r \<or> (r = half \<and> odd q) then q + 1 else q)
            in (sgn m * q', e + int k)))"

definition fadd :: "binary64 \<Rightarrow> binary64 \<Rightarrow> binary64" where
  "fadd x y =
     (let e = min (snd x) (snd y)
      in round53 (fst x * 2 ^ nat (snd x - e) + fst y * 2 ^ nat (snd y - e)) e)"

text \<open>The literals \<open>0\<close>, \<open>0.4\<close>, \<open>0.3\<close>, \<open>0.2\<close> and \<open>0.1\<close> of \<open>verify\<close>: the binary64
  number nearest to each decimal.\<close>

definition dzero :: binary64 where "dzero = (0, 0)"
definition d0_4 :: binary64 where "d0_4 = (3602879701896397, - 53)"
definition d0_3 :: binary64 where "d0_3 = (5404319552844595, - 54)"
definition d0_2 :: binary64 where "d0_2 = (3602879701896397, - 54)"
definition d0_1 :: binary64 where "d0_1 = (3602879701896397, - 55)"

text \<open>\<open>if (b) trustScore += w\<close>.\<close>

definition add_if :: "bool \<Rightarrow> binary64 \<Rightarrow> binary64 \<Rightarrow> binary64" where
  "add_if b w score = (if b then fadd score w else score)"

text \<open>The sum of a list of numbers, added from the left starting at \<open>0\<close>.\<close>

definition double_sum :: "binary64 list \<Rightarrow> binary64" where
  "double_sum ws = foldl fadd dzero ws"

text \<open>The three checks of \<open>verify\<close>, in the order of the source: expiration, signature,
  chain integrity (one hop: the parent is looked up, its own parent is not).\<close>

definition check_expiration :: "int \<Rightarrow> TIBETToken \<Rightarrow> bool" where
  "check_expiration now token =
     (case expiresAt token of
        None \<Rightarrow> True
      | Some InvalidDate \<Rightarrow> False
      | Some (TimeValue t) \<Rightarrow> t > now)"

definition expectedSignature :: "(string \<Rightarrow> string) option \<Rightarrow> TIBETToken \<Rightarrow> string" where
  "expectedSignature sha token =
     generateSignature sha
       (ser (tokenData (tokenId token) (type' token) (actor token)
               (provenance token) (timestamp token) (parentId token)))"

definition check_chain :: "TIBET \<Rightarrow> TIBETToken \<Rightarrow> bool" where
  "check_chain s token =
     (case parentId token of
        None \<Rightarrow> True
      | Some p \<Rightarrow> if p = [] then True else tokens s p \<noteq> None)"

definition verify ::
  "(string \<Rightarrow> string) option \<Rightarrow> int \<Rightarrow> heap \<Rightarrow> TIBET \<Rightarrow> tokenOrId \<Rightarrow> VerificationResult" where
  "verify sha now h s tokenOrId =
     (case resolve h s tokenOrId of
        None \<Rightarrow>
          \<lparr>valid = False,
           v_tokenId = (case tokenOrId of TokenId i \<Rightarrow> i | TokenObj t \<Rightarrow> ''unknown''),
           trustScore = 0,
           details = \<lparr>signatureValid = False, notExpired = False,
                      chainIntact = False, actorTrusted = False\<rparr>,
           error = Some ''Token not found''\<rparr>
      | Some token \<Rightarrow>
          (let ne = check_expiration now token;
               sv = (signature token = expectedSignature sha token);
               ci = check_chain s token;
               score = add_if (actor token \<noteq> ''anonymous'') d0_1
                         (add_if ci d0_2 (add_if ne d0_3 (add_if sv d0_4 dzero)))
           in \<lparr>valid = (sv \<and> ne \<and> ci),
               v_tokenId = tokenId token,
               trustScore = value_of score,
               details = \<lparr>signatureValid = sv, notExpired = ne, chainIntact = ci,
                          actorTrusted = (actor token \<noteq> ''anonymous'')\<rparr>,
               error = None\<rparr>))"

subsection \<open>getChain\<close>

text \<open>\<open>xs[i]\<close>: \<open>undefined\<close> outside the array.\<close>

definition js_index :: "'a list \<Rightarrow> int \<Rightarrow> 'a option" where
  "js_index xs i = (if 0 \<le> i \<and> i < int (length xs) then Some (xs ! nat i) else None)"

record ProvenanceChain =
  length' :: nat
  tokens' :: "ref list"
  origin :: "ref option"
  current :: "ref option"

text \<open>
  The \<open>while (current)\<close> loop of \<open>getChain\<close>: \<open>unshift\<close> puts the token in front, then
  the parent is looked up when \<open>parentId\<close> is truthy. The loop has no other exit, so
  it is a partial function: \<open>None\<close> means that the walk does not return. \<open>parent_of\<close> is
  \<open>current.parentId ? this.tokens.get(current.parentId) : undefined\<close>.
\<close>

definition parent_of :: "heap \<Rightarrow> TIBET \<Rightarrow> ref \<Rightarrow> ref option" where
  "parent_of h s r =
     (case parentId (h ! r) of
        None \<Rightarrow> None
      | Some p \<Rightarrow> if p = [] then None else tokens s p)"

partial_function (option) getChain_loop ::
  "heap \<Rightarrow> TIBET \<Rightarrow> ref option \<Rightarrow> ref list \<Rightarrow> ref list option" where
  "getChain_loop h s cur toks =
     (case cur of
        None \<Rightarrow> Some toks
      | Some r \<Rightarrow> getChain_loop h s (parent_of h s r) (r # toks))"

text \<open>The result is \<open>None\<close> when the walk does not return, \<open>Some None\<close> for the
  \<open>null\<close> of an unknown identifier, and \<open>Some (Some c)\<close> for a chain.\<close>

definition getChain :: "heap \<Rightarrow> TIBET \<Rightarrow> string \<Rightarrow> ProvenanceChain option option" where
  "getChain h s tid =
     (case tokens s tid of
        None \<Rightarrow> Some None
      | Some r \<Rightarrow>
          (case getChain_loop h s (Some r) [] of
             None \<Rightarrow> None
           | Some toks \<Rightarrow>
               Some (Some \<lparr>length' = length toks, tokens' = toks,
                           origin = js_index toks 0,
                           current = js_index toks (int (length toks) - 1)\<rparr>)))"

text \<open>
  The lineage that the specification describes, as a check on a list of tokens in
  ancestor-to-descendant order: the first token has no parent that resolves, and each
  later token has the token before it as its parent.
\<close>

fun linked :: "heap \<Rightarrow> TIBET \<Rightarrow> ref list \<Rightarrow> bool" where
  "linked h s (q # r # rs) = (parent_of h s r = Some q \<and> linked h s (r # rs))"
| "linked h s rs = True"

definition ancestry :: "heap \<Rightarrow> TIBET \<Rightarrow> ref list \<Rightarrow> bool" where
  "ancestry h s rs = (rs \<noteq> [] \<and> parent_of h s (hd rs) = None \<and> linked h s rs)"

subsection \<open>updateState, getToken, import\<close>

definition updateState ::
  "heap \<Rightarrow> TIBET \<Rightarrow> string \<Rightarrow> TIBETState \<Rightarrow> ref option \<times> heap \<times> TIBET" where
  "updateState h s tid newState =
     (case tokens s tid of
        None \<Rightarrow> (None, h, s)
      | Some r \<Rightarrow>
          (Some r, h[r := (h ! r)\<lparr>state := newState\<rparr>], s\<lparr>tokens := (tokens s)(tid \<mapsto> r)\<rparr>))"

definition getToken :: "TIBET \<Rightarrow> string \<Rightarrow> ref option" where
  "getToken s tid = tokens s tid"

text \<open>\<open>import\<close>, from the parsed entries: each token is a new object, stored under the
  entry's key whatever the token's own \<open>tokenId\<close> says.\<close>

fun import' :: "heap \<Rightarrow> TIBET \<Rightarrow> (string \<times> TIBETToken) list \<Rightarrow> heap \<times> TIBET" where
  "import' h s [] = (h, s)"
| "import' h s ((i, t) # entries) =
     import' (h @ [t]) (s\<lparr>tokens := (tokens s)(i \<mapsto> length h)\<rparr>) entries"

section \<open>consent.ts: the bilateral consent manager\<close>

record BilateralConsent =
  from' :: string
  to' :: string
  action :: string
  purpose :: string
  context' :: "(string \<times> json) list option"
  expiresIn :: "int option"

record ConsentProposal =
  token :: ref
  acceptUrl :: "string option"
  rejectUrl :: "string option"

record ConsentResponse =
  proposalId :: string
  accepted :: bool
  token' :: ref
  reason :: "string option"

record BilateralConsentManager =
  tibet :: TIBET
  proposals :: "string \<rightharpoonup> ConsentProposal"

definition new_BilateralConsentManager :: "string option \<Rightarrow> BilateralConsentManager" where
  "new_BilateralConsentManager actorDid = \<lparr>tibet = new_TIBET actorDid, proposals = Map.empty\<rparr>"

text \<open>The object literals that \<open>propose\<close>, \<open>accept\<close> and \<open>reject\<close> pass to
  \<open>createToken\<close>. The argument \<open>stamp\<close> is the \<open>new Date().toISOString()\<close> of the
  metadata.\<close>

definition propose_params :: "BilateralConsent \<Rightarrow> string \<Rightarrow> createToken_params" where
  "propose_params consent stamp =
     \<lparr>p_type = bilateral_consent,
      p_what = JObj [(''action'', JStr (action consent)),
                     (''from'', JStr (from' consent)),
                     (''to'', JStr (to' consent))],
      p_with = Some [from' consent, to' consent],
      p_where = context' consent,
      p_why = purpose consent,
      p_actor = Some (from' consent),
      p_parentId = None,
      p_expiresIn = expiresIn consent,
      p_metadata = Some [(''consentType'', JStr ''bilateral''),
                         (''proposedAt'', JStr stamp)]\<rparr>"

definition accept_params ::
  "WWWwProvenance \<Rightarrow> string \<Rightarrow> string \<Rightarrow> string \<Rightarrow> createToken_params" where
  "accept_params prov stamp pid acceptorDid =
     \<lparr>p_type = bilateral_consent,
      p_what = JObj [(''action'', JStr ''consent_accepted''),
                     (''originalAction'', js_get (what prov) ''action'')],
      p_with = with' prov,
      p_where = where' prov,
      p_why = ''Accepted: '' @ why prov,
      p_actor = Some acceptorDid,
      p_parentId = Some pid,
      p_expiresIn = None,
      p_metadata = Some [(''responseType'', JStr ''acceptance''),
                         (''acceptedAt'', JStr stamp)]\<rparr>"

definition reject_params ::
  "WWWwProvenance \<Rightarrow> string \<Rightarrow> string \<Rightarrow> string \<Rightarrow> string option \<Rightarrow> createToken_params" where
  "reject_params prov stamp pid rejectorDid why_not =
     \<lparr>p_type = bilateral_consent,
      p_what = JObj [(''action'', JStr ''consent_rejected''),
                     (''originalAction'', js_get (what prov) ''action'')],
      p_with = with' prov,
      p_where = where' prov,
      p_why = or_default why_not (''Rejected: '' @ why prov),
      p_actor = Some rejectorDid,
      p_parentId = Some pid,
      p_expiresIn = None,
      p_metadata = Some [(''responseType'', JStr ''rejection''),
                         (''rejectedAt'', JStr stamp),
                         (''reason'', case why_not of
                                        None \<Rightarrow> JUndefined
                                      | Some x \<Rightarrow> JStr x)]\<rparr>"

text \<open>
  Every operation returns the heap and the manager as they are when it returns or
  throws: an exception does not undo what was written before it.
\<close>

definition propose ::
  "(string \<Rightarrow> string) option \<Rightarrow> string \<Rightarrow> create_env \<Rightarrow> heap \<Rightarrow> BilateralConsentManager
     \<Rightarrow> BilateralConsent \<Rightarrow> (js_error + ConsentProposal) \<times> heap \<times> BilateralConsentManager" where
  "propose sha stamp env h m consent =
     (case createToken sha env h (tibet m) (propose_params consent stamp) of
        (Inl err, h1, s1) \<Rightarrow> (Inl err, h1, m\<lparr>tibet := s1\<rparr>)
      | (Inr r, h1, s1) \<Rightarrow>
          (case updateState h1 s1 (tokenId (h1 ! r)) PROPOSED of
             (u, h2, s2) \<Rightarrow>
               (let proposal = \<lparr>token = r, acceptUrl = None, rejectUrl = None\<rparr>
                in (Inr proposal, h2,
                    \<lparr>tibet = s2,
                     proposals = (proposals m)(tokenId (h2 ! r) \<mapsto> proposal)\<rparr>))))"

definition accept ::
  "(string \<Rightarrow> string) option \<Rightarrow> string \<Rightarrow> create_env \<Rightarrow> heap \<Rightarrow> BilateralConsentManager
     \<Rightarrow> string \<Rightarrow> string \<Rightarrow> (js_error + ConsentResponse) \<times> heap \<times> BilateralConsentManager" where
  "accept sha stamp env h m pid acceptorDid =
     (case proposals m pid of
        None \<Rightarrow> (Inl (Error (''Proposal not found: '' @ pid)), h, m)
      | Some proposal \<Rightarrow>
          (let originalToken = h ! token proposal;
               prov = provenance originalToken;
               expectedTo = js_get (what prov) ''to''
           in if truthy expectedTo \<and> expectedTo \<noteq> JStr acceptorDid
              then (Inl (Error ''Acceptor does not match intended recipient''), h, m)
              else
                (case createToken sha env h (tibet m)
                        (accept_params prov stamp pid acceptorDid) of
                   (Inl err, h1, s1) \<Rightarrow> (Inl err, h1, m\<lparr>tibet := s1\<rparr>)
                 | (Inr r, h1, s1) \<Rightarrow>
                     (case updateState h1 s1 (tokenId (h1 ! r)) ACCEPTED of
                        (u, h2, s2) \<Rightarrow>
                          (case updateState h2 s2 pid ACCEPTED of
                             (v, h3, s3) \<Rightarrow>
                               (Inr \<lparr>proposalId = pid, accepted = True,
                                     token' = r, reason = None\<rparr>,
                                h3, m\<lparr>tibet := s3\<rparr>))))))"

definition reject ::
  "(string \<Rightarrow> string) option \<Rightarrow> string \<Rightarrow> create_env \<Rightarrow> heap \<Rightarrow> BilateralConsentManager
     \<Rightarrow> string \<Rightarrow> string \<Rightarrow> string option
     \<Rightarrow> (js_error + ConsentResponse) \<times> heap \<times> BilateralConsentManager" where
  "reject sha stamp env h m pid rejectorDid why_not =
     (case proposals m pid of
        None \<Rightarrow> (Inl (Error (''Proposal not found: '' @ pid)), h, m)
      | Some proposal \<Rightarrow>
          (let originalToken = h ! token proposal;
               prov = provenance originalToken
           in case createToken sha env h (tibet m)
                     (reject_params prov stamp pid rejectorDid why_not) of
                (Inl err, h1, s1) \<Rightarrow> (Inl err, h1, m\<lparr>tibet := s1\<rparr>)
              | (Inr r, h1, s1) \<Rightarrow>
                  (case updateState h1 s1 (tokenId (h1 ! r)) REJECTED of
                     (u, h2, s2) \<Rightarrow>
                       (case updateState h2 s2 pid REJECTED of
                          (v, h3, s3) \<Rightarrow>
                            (Inr \<lparr>proposalId = pid, accepted = False,
                                  token' = r, reason = why_not\<rparr>,
                             h3, m\<lparr>tibet := s3\<rparr>)))))"

definition getConsentChain ::
  "heap \<Rightarrow> BilateralConsentManager \<Rightarrow> string \<Rightarrow> ProvenanceChain option option" where
  "getConsentChain h m pid = getChain h (tibet m) pid"

definition verifyConsent ::
  "(string \<Rightarrow> string) option \<Rightarrow> int \<Rightarrow> heap \<Rightarrow> BilateralConsentManager \<Rightarrow> string
     \<Rightarrow> VerificationResult" where
  "verifyConsent sha now h m tid = verify sha now h (tibet m) (TokenId tid)"

section \<open>The state of a proposal\<close>

text \<open>The state that \<open>listProposals\<close> reads for a proposal: \<open>p.token.state\<close>.\<close>

definition proposal_state :: "heap \<Rightarrow> BilateralConsentManager \<Rightarrow> string \<Rightarrow> TIBETState option" where
  "proposal_state h m pid =
     (case proposals m pid of None \<Rightarrow> None | Some pr \<Rightarrow> Some (state (h ! token pr)))"

text \<open>
  What holds of a manager that is only used through \<open>propose\<close>, \<open>accept\<close> and
  \<open>reject\<close>: every reference of the store is allocated, no token object is stored
  under two identifiers, and the token of a proposal is the object that the store
  holds under the proposal's identifier.
\<close>

definition refs_ok :: "nat \<Rightarrow> (string \<rightharpoonup> ref) \<Rightarrow> (string \<rightharpoonup> ConsentProposal) \<Rightarrow> bool" where
  "refs_ok n T P =
     ((\<forall>i r. T i = Some r \<longrightarrow> r < n)
      \<and> (\<forall>i j r. T i = Some r \<and> T j = Some r \<longrightarrow> i = j)
      \<and> (\<forall>p pr. P p = Some pr \<longrightarrow> T p = Some (token pr)))"

definition consent_inv :: "heap \<Rightarrow> BilateralConsentManager \<Rightarrow> bool" where
  "consent_inv h m = refs_ok (length h) (tokens (tibet m)) (proposals m)"

text \<open>One call of an operation of the manager that writes; \<open>ok\<close> tells whether it
  returned rather than threw. The other operations (\<open>getConsentChain\<close>,
  \<open>verifyConsent\<close>, \<open>listProposals\<close>) only read.\<close>

datatype consent_op =
    Propose BilateralConsent
  | Accept string string
  | Reject string string "string option"

definition run_op ::
  "(string \<Rightarrow> string) option \<Rightarrow> string \<Rightarrow> create_env \<Rightarrow> heap \<Rightarrow> BilateralConsentManager
     \<Rightarrow> consent_op \<Rightarrow> bool \<times> heap \<times> BilateralConsentManager" where
  "run_op sha stamp env h m op =
     (case op of
        Propose c \<Rightarrow>
          (case propose sha stamp env h m c of (res, h', m') \<Rightarrow> (\<not> isl res, h', m'))
      | Accept pid d \<Rightarrow>
          (case accept sha stamp env h m pid d of (res, h', m') \<Rightarrow> (\<not> isl res, h', m'))
      | Reject pid d w \<Rightarrow>
          (case reject sha stamp env h m pid d w of (res, h', m') \<Rightarrow> (\<not> isl res, h', m')))"

text \<open>The heap after \<open>accept\<close> or \<open>reject\<close>: the new token \<open>tok\<close> is appended and set to
  \<open>st\<close>, then the proposal's token at \<open>r\<close> is set to \<open>st\<close>.\<close>

definition respond_heap :: "heap \<Rightarrow> TIBETToken \<Rightarrow> ref \<Rightarrow> TIBETState \<Rightarrow> heap" where
  "respond_heap h tok r st =
     (h @ [tok\<lparr>state := st\<rparr>])[r := ((h @ [tok\<lparr>state := st\<rparr>]) ! r)\<lparr>state := st\<rparr>]"

section \<open>Example data\<close>

definition ex_env :: "string \<Rightarrow> create_env" where
  "ex_env i = \<lparr>uuid = i, now_iso = ''2024-01-01T00:00:00.000Z'', date_now = 1704067200000\<rparr>"

definition ex_params :: "string option \<Rightarrow> string option \<Rightarrow> int option \<Rightarrow> createToken_params" where
  "ex_params act par e =
     \<lparr>p_type = audit, p_what = JStr ''login'', p_with = None, p_where = None,
      p_why = ''test'', p_actor = act, p_parentId = par, p_expiresIn = e,
      p_metadata = None\<rparr>"


definition ex_expired :: "(js_error + ref) \<times> heap \<times> TIBET" where
  "ex_expired = createToken None (ex_env ''id-1'') [] (new_TIBET None)
                  (ex_params (Some ''did:jis:alice'') None (Some (- 1)))"

definition ex_chain :: "heap \<times> TIBET" where
  "ex_chain =
     (case createToken None (ex_env ''id-a'') [] (new_TIBET None) (ex_params None None None) of
        (ra, h1, s1) \<Rightarrow>
     (case createToken None (ex_env ''id-b'') h1 s1 (ex_params None (Some ''id-a'') None) of
        (rb, h2, s2) \<Rightarrow>
     (case createToken None (ex_env ''id-c'') h2 s2 (ex_params None (Some ''id-b'') None) of
        (rc, h3, s3) \<Rightarrow> (h3, s3))))"

definition ex_cycle :: "heap \<times> TIBET" where
  "ex_cycle = import' [] (new_TIBET None)
     [(''x'', created_token None (ex_env ''x'') (new_TIBET None)
                (ex_params None (Some ''y'') None) None),
      (''y'', created_token None (ex_env ''y'') (new_TIBET None)
                (ex_params None (Some ''x'') None) None)]"

definition ex_consent :: BilateralConsent where
  "ex_consent = \<lparr>from' = ''did:jis:alice'', to' = ''did:jis:bob'', action = ''share-x'',
                 purpose = ''reason'', context' = None, expiresIn = None\<rparr>"

definition ex_stamp :: string where
  "ex_stamp = ''2024-01-01T00:00:00.000Z''"

definition ex_proposed :: "(js_error + ConsentProposal) \<times> heap \<times> BilateralConsentManager" where
  "ex_proposed = propose None ex_stamp (ex_env ''id-p'') []
                   (new_BilateralConsentManager (Some ''did:jis:alice'')) ex_consent"

definition ex_rejected :: "(js_error + ConsentResponse) \<times> heap \<times> BilateralConsentManager" where
  "ex_rejected = reject None ex_stamp (ex_env ''id-r'') (fst (snd ex_proposed))
                   (snd (snd ex_proposed)) ''id-p'' ''did:jis:bob'' (Some ''no thanks'')"

definition ex_reaccepted :: "(js_error + ConsentResponse) \<times> heap \<times> BilateralConsentManager" where
  "ex_reaccepted = accept None ex_stamp (ex_env ''id-a'') (fst (snd ex_rejected))
                     (snd (snd ex_rejected)) ''id-p'' ''did:jis:bob''"

definition ex_created_ttl :: "(js_error + ref) \<times> heap \<times> TIBET" where
  "ex_created_ttl = createToken None (ex_env ''id-1'') [] (new_TIBET None)
                      (ex_params (Some ''did:jis:alice'') None (Some 60000))"

definition ex_consent_open :: BilateralConsent where
  "ex_consent_open = \<lparr>from' = ''did:jis:alice'', to' = [], action = ''share-x'',
                      purpose = ''reason'', context' = None, expiresIn = None\<rparr>"

definition ex_proposed_open ::
  "(js_error + ConsentProposal) \<times> heap \<times> BilateralConsentManager" where
  "ex_proposed_open = propose None ex_stamp (ex_env ''id-p'') []
                        (new_BilateralConsentManager (Some ''did:jis:alice'')) ex_consent_open"

definition ex_accepted_open ::
  "(js_error + ConsentResponse) \<times> heap \<times> BilateralConsentManager" where
  "ex_accepted_open = accept None ex_stamp (ex_env ''id-a'') (fst (snd ex_proposed_open))
                        (snd (snd ex_proposed_open)) ''id-p'' ''did:jis:carol''"

section \<open>Properties of verify\<close>

lemma verify_resolved:
  assumes "resolve h s x = Some t"
  shows "verify sha now h s x =
     \<lparr>valid = (signature t = expectedSignature sha t \<and> check_expiration now t
                \<and> check_chain s t),
      v_tokenId = tokenId t,
      trustScore = value_of (add_if (actor t \<noteq> ''anonymous'') d0_1
                     (add_if (check_chain s t) d0_2
                       (add_if (check_expiration now t) d0_3
                         (add_if (signature t = expectedSignature sha t) d0_4 dzero)))),
      details = \<lparr>signatureValid = (signature t = expectedSignature sha t),
                 notExpired = check_expiration now t,
                 chainIntact = check_chain s t,
                 actorTrusted = (actor t \<noteq> ''anonymous'')\<rparr>,
      error = None\<rparr>"
  using assms unfolding verify_def Let_def by simp

text \<open>Each weight is the binary64 number nearest to its decimal: it is within half a
  unit in the last place.\<close>

lemma weights_nearest:
  "\<bar>value_of d0_4 - 0.4\<bar> < 1 / 2 ^ 55"
  "\<bar>value_of d0_3 - 0.3\<bar> < 1 / 2 ^ 55"
  "\<bar>value_of d0_2 - 0.2\<bar> < 1 / 2 ^ 56"
  "\<bar>value_of d0_1 - 0.1\<bar> < 1 / 2 ^ 57"
  by (simp_all add: value_of_def d0_4_def d0_3_def d0_2_def d0_1_def)

text \<open>Skipping an addition gives the number that adding \<open>0\<close> gives.\<close>

lemma add_if_sum:
  "value_of (add_if a4 d0_1 (add_if a3 d0_2 (add_if a2 d0_3 (add_if a1 d0_4 dzero)))) =
   value_of (double_sum [if a1 then d0_4 else dzero, if a2 then d0_3 else dzero,
                         if a3 then d0_2 else dzero, if a4 then d0_1 else dzero])"
  by (cases a1; cases a2; cases a3; cases a4)
     (simp_all add: add_if_def double_sum_def fadd_def round53_def Let_def d0_4_def d0_3_def
        d0_2_def d0_1_def dzero_def value_of_def)

text \<open>The sums that differ from the decimal sum of the same weights, among them the
  score of a token that passes every check.\<close>

lemma double_sum_values:
  "value_of (double_sum [d0_4, d0_3, d0_2, d0_1]) = 9007199254740991 / 9007199254740992"
  "value_of (double_sum [d0_4, dzero, d0_2, d0_1]) = 6305039478318695 / 9007199254740992"
  "value_of (double_sum [d0_4, dzero, d0_2, dzero]) = 1351079888211149 / 2251799813685248"
  by (simp_all add: double_sum_def fadd_def round53_def Let_def d0_4_def d0_3_def
        d0_2_def d0_1_def dzero_def value_of_def)



subsection \<open>The digest covers the canonical fields only\<close>

lemma resolve_TokenObj: "resolve h s (TokenObj t) = Some t"
  by (simp add: resolve_def)

lemma signatureValid_resolved:
  "resolve h s x = Some t \<Longrightarrow>
     signatureValid (details (verify sha now h s x)) = (signature t = expectedSignature sha t)"
  by (simp add: verify_resolved)

lemma signatureValid_unresolved:
  "resolve h s x = None \<Longrightarrow> signatureValid (details (verify sha now h s x)) = False"
  by (simp add: verify_def)

lemma updateState_tokens:
  "tokens (snd (snd (updateState h s j st))) = tokens s"
  by (auto simp: updateState_def split: option.splits)

lemma updateState_heap_nth:
  "\<exists>st'. fst (snd (updateState h s j st)) ! r = (h ! r)\<lparr>state := st'\<rparr>"
proof (cases "tokens s j")
  case None
  then have "fst (snd (updateState h s j st)) ! r = (h ! r)\<lparr>state := state (h ! r)\<rparr>"
    by (simp add: updateState_def)
  then show ?thesis ..
next
  case (Some q)
  show ?thesis
  proof (cases "q = r \<and> r < length h")
    case True
    with Some have "fst (snd (updateState h s j st)) ! r = (h ! r)\<lparr>state := st\<rparr>"
      by (simp add: updateState_def)
    then show ?thesis ..
  next
    case False
    then have "h[q := (h ! q)\<lparr>state := st\<rparr>] ! r = h ! r"
      by (cases "q = r") (simp_all add: list_update_beyond)
    with Some have "fst (snd (updateState h s j st)) ! r = (h ! r)\<lparr>state := state (h ! r)\<rparr>"
      by (simp add: updateState_def)
    then show ?thesis ..
  qed
qed

lemma resolve_updateState:
  "rel_option (\<lambda>t' t. \<exists>st'. t' = t\<lparr>state := st'\<rparr>)
     (resolve (fst (snd (updateState h s j st))) (snd (snd (updateState h s j st))) x)
     (resolve h s x)"
proof (cases x)
  case (TokenObj t)
  have "t = t\<lparr>state := state t\<rparr>" by simp
  then have "\<exists>st'. t = t\<lparr>state := st'\<rparr>" ..
  with TokenObj show ?thesis by (simp add: resolve_def)
next
  case (TokenId i)
  then show ?thesis
    using updateState_heap_nth[of h s j st]
    by (simp add: resolve_def updateState_tokens split: option.splits)
qed

text \<open>
  C6. The digest is taken over \<open>tokenId\<close>, \<open>type\<close>, \<open>actor\<close>, \<open>provenance\<close>,
  \<open>timestamp\<close> and \<open>parentId\<close> only. The digest stored at creation is the same
  whatever \<open>expiresIn\<close> and \<open>metadata\<close> are; a token and its copy with \<open>state\<close>,
  \<open>expiresAt\<close> and \<open>metadata\<close> changed get the same \<open>signatureValid\<close>, whatever the
  store and the time; and \<open>updateState\<close> on any identifier leaves the
  \<open>signatureValid\<close> of every token or identifier as it was.
\<close>

theorem signatureValid_ignores_mutable_fields:
  "signature (created_token sha env s (p\<lparr>p_expiresIn := e, p_metadata := md\<rparr>) ex) =
   signature (created_token sha env s p ex')
   \<and> signatureValid (details (verify sha now h s
       (TokenObj (t\<lparr>state := st, expiresAt := ex, metadata := md\<rparr>)))) =
     signatureValid (details (verify sha now' h' s' (TokenObj t)))
   \<and> signatureValid (details (verify sha now (fst (snd (updateState h s j st)))
                                  (snd (snd (updateState h s j st))) x)) =
     signatureValid (details (verify sha now h s x))"
proof (intro conjI)
  show "signature (created_token sha env s (p\<lparr>p_expiresIn := e, p_metadata := md\<rparr>) ex) =
        signature (created_token sha env s p ex')"
    by (simp add: created_token_def)
next
  show "signatureValid (details (verify sha now h s
       (TokenObj (t\<lparr>state := st, expiresAt := ex, metadata := md\<rparr>)))) =
   signatureValid (details (verify sha now' h' s' (TokenObj t)))"
    by (simp add: signatureValid_resolved[OF resolve_TokenObj] expectedSignature_def)
next
  let ?h = "fst (snd (updateState h s j st))" and ?s = "snd (snd (updateState h s j st))"
  show "signatureValid (details (verify sha now ?h ?s x)) =
     signatureValid (details (verify sha now h s x))"
  proof (cases "resolve h s x")
    case None
    with resolve_updateState[of h s j st x] have "resolve ?h ?s x = None" by simp
    with None show ?thesis by (simp add: signatureValid_unresolved)
  next
    case (Some t)
    with resolve_updateState[of h s j st x]
    obtain st' where "resolve ?h ?s x = Some (t\<lparr>state := st'\<rparr>)"
      by (auto simp: option_rel_Some2)
    with Some show ?thesis
      by (simp add: signatureValid_resolved expectedSignature_def)
  qed
qed

text \<open>
  C10. Called with a token object, \<open>verify\<close> never gives the \<open>Token not found\<close> result:
  it checks the object itself, whatever the store holds, and \<open>signatureValid\<close> only
  compares the object's \<open>signature\<close> with the digest of its own canonical fields. So
  an object carrying that digest is \<open>signatureValid\<close> on a store that is empty.
\<close>

theorem verify_object_never_not_found:
  "error (verify sha now h s (TokenObj t)) = None
   \<and> v_tokenId (verify sha now h s (TokenObj t)) = tokenId t
   \<and> signatureValid (details (verify sha now h s (TokenObj t))) =
       (signature t = expectedSignature sha t)
   \<and> signatureValid (details (verify sha now [] (new_TIBET a)
         (TokenObj (t\<lparr>signature := expectedSignature sha t\<rparr>))))"
  by (simp add: verify_resolved[OF resolve_TokenObj] expectedSignature_def)

section \<open>Properties of createToken followed by verify\<close>

lemma createToken_Inr:
  assumes "expiry (date_now env) (p_expiresIn p) = Inr ex"
  shows "createToken sha env h s p =
           (Inr (length h), h @ [created_token sha env s p ex],
            s\<lparr>tokens := (tokens s)(uuid env \<mapsto> length h)\<rparr>)"
  using assms by (simp add: createToken_def created_token_def Let_def)

lemma createToken_Inl:
  assumes "expiry (date_now env) (p_expiresIn p) = Inl err"
  shows "createToken sha env h s p = (Inl err, h, s)"
  using assms by (simp add: createToken_def Let_def)

lemma createToken_cases:
  "(\<exists>err. expiry (date_now env) (p_expiresIn p) = Inl err \<and>
           createToken sha env h s p = (Inl err, h, s))
   \<or> (\<exists>ex. expiry (date_now env) (p_expiresIn p) = Inr ex \<and>
           createToken sha env h s p =
             (Inr (length h), h @ [created_token sha env s p ex],
              s\<lparr>tokens := (tokens s)(uuid env \<mapsto> length h)\<rparr>))"
  by (cases "expiry (date_now env) (p_expiresIn p)")
     (simp_all add: createToken_Inl createToken_Inr)

lemma created_token_signature:
  "signature (created_token sha env s p ex) = expectedSignature sha (created_token sha env s p ex)"
  by (simp add: created_token_def expectedSignature_def)

lemma created_token_fields:
  "tokenId (created_token sha env s p ex) = uuid env"
  "actor (created_token sha env s p ex) = or_default (p_actor p) (defaultActor s)"
  "parentId (created_token sha env s p ex) = p_parentId p"
  "expiresAt (created_token sha env s p ex) = ex"
  "state (created_token sha env s p ex) = CREATED"
  "provenance (created_token sha env s p ex) =
     \<lparr>what = p_what p, with' = p_with p, where' = p_where p, why = p_why p\<rparr>"
  by (simp_all add: created_token_def)

text \<open>
  C9. A supplied duration of zero is not turned into an expiry: the test
  \<open>params.expiresIn ? \<dots> : undefined\<close> takes the number 0 for an absent duration, so
  the token is stored without \<open>expiresAt\<close> and \<open>verify\<close> reports it as not expired at
  every later time.
\<close>

theorem createToken_zero_expiresIn:
  "createToken sha env h s (p\<lparr>p_expiresIn := Some 0\<rparr>) =
     (Inr (length h), h @ [created_token sha env s p None],
      s\<lparr>tokens := (tokens s)(uuid env \<mapsto> length h)\<rparr>)
   \<and> expiresAt (created_token sha env s p None) = None
   \<and> notExpired (details (verify sha now
         (fst (snd (createToken sha env h s (p\<lparr>p_expiresIn := Some 0\<rparr>))))
         (snd (snd (createToken sha env h s (p\<lparr>p_expiresIn := Some 0\<rparr>))))
         (TokenId (uuid env))))"
proof -
  have e: "expiry (date_now env) (p_expiresIn (p\<lparr>p_expiresIn := Some 0\<rparr>)) = Inr None"
    by (simp add: expiry_def)
  have c: "created_token sha env s (p\<lparr>p_expiresIn := Some 0\<rparr>) None = created_token sha env s p None"
    by (simp add: created_token_def)
  have r: "resolve (h @ [created_token sha env s p None])
             (s\<lparr>tokens := (tokens s)(uuid env \<mapsto> length h)\<rparr>) (TokenId (uuid env))
           = Some (created_token sha env s p None)"
    by (simp add: resolve_def)
  show ?thesis
    unfolding createToken_Inr[OF e] c
    by (simp add: verify_resolved[OF r] check_expiration_def created_token_fields)
qed

text \<open>For a duration other than zero that stays in the range of dates, \<open>expiresAt\<close> is
  the clock reading of \<open>Date.now()\<close> plus the duration.\<close>

lemma createToken_nonzero_expiresIn:
  assumes "p_expiresIn p = Some d" "d \<noteq> 0" "\<bar>date_now env + d\<bar> \<le> 8640000000000000"
  shows "createToken sha env h s p =
           (Inr (length h), h @ [created_token sha env s p (Some (TimeValue (date_now env + d)))],
            s\<lparr>tokens := (tokens s)(uuid env \<mapsto> length h)\<rparr>)"
  using assms by (intro createToken_Inr) (simp add: expiry_def)

lemma trustScore_le_when_expired:
  assumes "resolve h s x = Some t" "\<not> check_expiration now t"
  shows "trustScore (verify sha now h s x) \<le> value_of (double_sum [d0_4, dzero, d0_2, d0_1])"
proof -
  have "value_of (add_if a4 d0_1 (add_if a3 d0_2 (add_if False d0_3 (add_if a1 d0_4 dzero))))
          \<le> 6305039478318695 / 9007199254740992" for a1 a3 a4
    by (cases a1; cases a3; cases a4)
       (simp_all add: add_if_def fadd_def round53_def Let_def d0_4_def d0_3_def
          d0_2_def d0_1_def dzero_def value_of_def)
  with assms show ?thesis
    by (simp add: verify_resolved double_sum_values)
qed

text \<open>
  C4, as amended. A token created with \<open>expiresIn = -1\<close>, verified by identifier or as
  an object at a time not before its creation, has \<open>notExpired\<close> false and \<open>valid\<close>
  false, and its \<open>trustScore\<close> is at most the number that JavaScript computes for
  \<open>0.4 + 0.2 + 0.1\<close> and prints as \<open>0.7000000000000001\<close>: the other three weights can
  all be earned.
\<close>

theorem expired_token_verify:
  assumes e: "p_expiresIn p = Some (- 1)"
    and range: "\<bar>date_now env - 1\<bar> \<le> 8640000000000000"
    and clock: "date_now env \<le> now"
  shows "fst (createToken sha env h s p) = Inr (length h)
     \<and> (\<forall>x \<in> {TokenId (uuid env), TokenObj (fst (snd (createToken sha env h s p)) ! length h)}.
          \<not> notExpired (details (verify sha now (fst (snd (createToken sha env h s p)))
                                    (snd (snd (createToken sha env h s p))) x))
        \<and> \<not> valid (verify sha now (fst (snd (createToken sha env h s p)))
                                    (snd (snd (createToken sha env h s p))) x)
        \<and> trustScore (verify sha now (fst (snd (createToken sha env h s p)))
                                    (snd (snd (createToken sha env h s p))) x)
            \<le> value_of (double_sum [d0_4, dzero, d0_2, d0_1]))
     \<and> value_of (double_sum [d0_4, dzero, d0_2, d0_1]) = 6305039478318695 / 9007199254740992
     \<and> value_of (double_sum [d0_4, dzero, d0_2, d0_1]) \<le> 0.7000000000000001"
proof -
  let ?t = "created_token sha env s p (Some (TimeValue (date_now env - 1)))"
  let ?h = "h @ [?t]" and ?s = "s\<lparr>tokens := (tokens s)(uuid env \<mapsto> length h)\<rparr>"
  have ex: "expiry (date_now env) (p_expiresIn p) = Inr (Some (TimeValue (date_now env - 1)))"
    using e range by (simp add: expiry_def)
  have c: "createToken sha env h s p = (Inr (length h), ?h, ?s)"
    by (rule createToken_Inr[OF ex])
  have ne: "\<not> check_expiration now ?t"
    using clock by (simp add: check_expiration_def created_token_fields)
  have r1: "resolve ?h ?s (TokenId (uuid env)) = Some ?t"
    by (simp add: resolve_def)
  have r2: "resolve ?h ?s (TokenObj (?h ! length h)) = Some ?t"
    by (simp add: resolve_def)
  have "\<not> notExpired (details (verify sha now ?h ?s x))
        \<and> \<not> valid (verify sha now ?h ?s x)
        \<and> trustScore (verify sha now ?h ?s x)
            \<le> value_of (double_sum [d0_4, dzero, d0_2, d0_1])"
    if "resolve ?h ?s x = Some ?t" for x
    using that ne trustScore_le_when_expired[OF that ne]
    by (simp add: verify_resolved[OF that])
  moreover have "value_of (double_sum [d0_4, dzero, d0_2, d0_1]) \<le> 0.7000000000000001"
    by (simp add: double_sum_values)
  ultimately show ?thesis
    using r1 r2 unfolding c by (simp add: double_sum_values(2))
qed

text \<open>With the actor \<open>did:jis:alice\<close> and no parent the score of the expired token is
  the number printed as \<open>0.7000000000000001\<close>, above 0.6.\<close>

theorem expired_token_trustScore_counterexample:
  "trustScore (verify None 1704067200000 (fst (snd ex_expired)) (snd (snd ex_expired))
                    (TokenId ''id-1'')) = 6305039478318695 / 9007199254740992
   \<and> \<not> trustScore (verify None 1704067200000 (fst (snd ex_expired)) (snd (snd ex_expired))
                    (TokenId ''id-1'')) \<le> 0.6"
proof -
  have e: "expiry (date_now (ex_env ''id-1''))
             (p_expiresIn (ex_params (Some ''did:jis:alice'') None (Some (- 1))))
           = Inr (Some (TimeValue 1704067199999))"
    by (simp add: expiry_def ex_env_def ex_params_def)
  let ?t = "created_token None (ex_env ''id-1'') (new_TIBET None)
              (ex_params (Some ''did:jis:alice'') None (Some (- 1)))
              (Some (TimeValue 1704067199999))"
  have r: "resolve (fst (snd ex_expired)) (snd (snd ex_expired)) (TokenId ''id-1'') = Some ?t"
    unfolding ex_expired_def createToken_Inr[OF e] by (simp add: resolve_def ex_env_def)
  have f: "signature ?t = expectedSignature None ?t" "\<not> check_expiration 1704067200000 ?t"
    "check_chain (snd (snd ex_expired)) ?t" "actor ?t \<noteq> ''anonymous''"
    by (simp_all add: created_token_signature created_token_fields check_expiration_def
          check_chain_def ex_params_def or_default_def)
  have "trustScore (verify None 1704067200000 (fst (snd ex_expired)) (snd (snd ex_expired))
                    (TokenId ''id-1'')) = 6305039478318695 / 9007199254740992"
    unfolding verify_resolved[OF r] using f
    by (simp add: add_if_sum double_sum_values)
  then show ?thesis by simp
qed

theorem expired_token_verify_witness:
  "p_expiresIn (ex_params (Some ''did:jis:alice'') None (Some (- 1))) = Some (- 1)
   \<and> \<bar>date_now (ex_env ''id-1'') - 1\<bar> \<le> 8640000000000000
   \<and> date_now (ex_env ''id-1'') \<le> 1704067200000
   \<and> fst ex_expired = Inr 0
   \<and> \<not> valid (verify None 1704067200000 (fst (snd ex_expired)) (snd (snd ex_expired))
                 (TokenId ''id-1''))
   \<and> trustScore (verify None 1704067200000 (fst (snd ex_expired)) (snd (snd ex_expired))
                 (TokenId ''id-1'')) \<le> 6305039478318695 / 9007199254740992"
proof -
  have a: "p_expiresIn (ex_params (Some ''did:jis:alice'') None (Some (- 1))) = Some (- 1)"
    by (simp add: ex_params_def)
  have b: "\<bar>date_now (ex_env ''id-1'') - 1\<bar> \<le> 8640000000000000"
    by (simp add: ex_env_def)
  have c: "date_now (ex_env ''id-1'') \<le> 1704067200000"
    by (simp add: ex_env_def)
  have u: "uuid (ex_env ''id-1'') = ''id-1''"
    by (simp add: ex_env_def)
  show ?thesis
    using a b c expired_token_verify[OF a b c, of None "[]" "new_TIBET None"]
    unfolding ex_expired_def[symmetric] u by simp
qed

text \<open>
  C2. A creation input is valid for this property when its \<open>parentId\<close> is absent (or
  empty) or names a token of the store, and when a supplied \<open>expiresIn\<close> has not run
  out at the time of verification. Then \<open>verify\<close>, called on the returned store with
  the new identifier or with the new token, gives \<open>valid\<close>, with \<open>signatureValid\<close>,
  \<open>notExpired\<close> and \<open>chainIntact\<close> true, and \<open>actorTrusted\<close> false exactly when the
  token's actor (the supplied one, else the default one) is \<open>anonymous\<close>.
\<close>

theorem verify_after_create:
  assumes ok: "fst (createToken sha env h s p) = Inr r"
    and parent: "\<not> truthy_str (p_parentId p) \<or> (\<exists>q. p_parentId p = Some q \<and> tokens s q \<noteq> None)"
    and live: "\<forall>e. p_expiresIn p = Some e \<longrightarrow> now < date_now env + e"
  shows "\<forall>x \<in> {TokenId (uuid env), TokenObj (fst (snd (createToken sha env h s p)) ! r)}.
          valid (verify sha now (fst (snd (createToken sha env h s p)))
                                (snd (snd (createToken sha env h s p))) x)
        \<and> signatureValid (details (verify sha now (fst (snd (createToken sha env h s p)))
                                (snd (snd (createToken sha env h s p))) x))
        \<and> notExpired (details (verify sha now (fst (snd (createToken sha env h s p)))
                                (snd (snd (createToken sha env h s p))) x))
        \<and> chainIntact (details (verify sha now (fst (snd (createToken sha env h s p)))
                                (snd (snd (createToken sha env h s p))) x))
        \<and> actorTrusted (details (verify sha now (fst (snd (createToken sha env h s p)))
                                (snd (snd (createToken sha env h s p))) x))
            = (or_default (p_actor p) (defaultActor s) \<noteq> ''anonymous'')
        \<and> error (verify sha now (fst (snd (createToken sha env h s p)))
                                (snd (snd (createToken sha env h s p))) x) = None"
proof -
  from ok createToken_cases[of env p sha h s]
  obtain ex where ex: "expiry (date_now env) (p_expiresIn p) = Inr ex"
    and c: "createToken sha env h s p =
             (Inr (length h), h @ [created_token sha env s p ex],
              s\<lparr>tokens := (tokens s)(uuid env \<mapsto> length h)\<rparr>)"
    by auto
  let ?t = "created_token sha env s p ex"
  let ?h = "h @ [?t]" and ?s = "s\<lparr>tokens := (tokens s)(uuid env \<mapsto> length h)\<rparr>"
  from ok c have r: "r = length h" by simp
  have ne: "check_expiration now ?t"
    using ex live
    by (auto simp: check_expiration_def created_token_fields expiry_def
             split: option.splits if_splits)
  have ci: "check_chain ?s ?t"
    using parent
    by (auto simp: check_chain_def created_token_fields truthy_str_def split: option.splits)
  have r1: "resolve ?h ?s (TokenId (uuid env)) = Some ?t"
    by (simp add: resolve_def)
  have r2: "resolve ?h ?s (TokenObj (?h ! r)) = Some ?t"
    by (simp add: resolve_def r)
  have "valid (verify sha now ?h ?s x)
        \<and> signatureValid (details (verify sha now ?h ?s x))
        \<and> notExpired (details (verify sha now ?h ?s x))
        \<and> chainIntact (details (verify sha now ?h ?s x))
        \<and> actorTrusted (details (verify sha now ?h ?s x))
            = (or_default (p_actor p) (defaultActor s) \<noteq> ''anonymous'')
        \<and> error (verify sha now ?h ?s x) = None"
    if "resolve ?h ?s x = Some ?t" for x
    using ne ci by (simp add: verify_resolved[OF that] created_token_signature created_token_fields)
  with r1 r2 show ?thesis unfolding c by simp
qed

theorem verify_after_create_witness:
  "fst ex_created_ttl = Inr 0
   \<and> p_parentId (ex_params (Some ''did:jis:alice'') None (Some 60000)) = None
   \<and> p_expiresIn (ex_params (Some ''did:jis:alice'') None (Some 60000)) = Some 60000
   \<and> (1704067200000 :: int) < date_now (ex_env ''id-1'') + 60000
   \<and> valid (verify None 1704067200000 (fst (snd ex_created_ttl)) (snd (snd ex_created_ttl))
              (TokenId ''id-1''))
   \<and> actorTrusted (details (verify None 1704067200000 (fst (snd ex_created_ttl))
              (snd (snd ex_created_ttl)) (TokenId ''id-1'')))"
proof -
  have a: "fst (createToken None (ex_env ''id-1'') [] (new_TIBET None)
                 (ex_params (Some ''did:jis:alice'') None (Some 60000))) = Inr 0"
    by (simp add: createToken_def Let_def expiry_def ex_params_def ex_env_def)
  have b: "\<not> truthy_str (p_parentId (ex_params (Some ''did:jis:alice'') None (Some 60000)))
       \<or> (\<exists>q. p_parentId (ex_params (Some ''did:jis:alice'') None (Some 60000)) = Some q
              \<and> tokens (new_TIBET None) q \<noteq> None)"
    by (simp add: ex_params_def truthy_str_def)
  have c: "\<forall>e. p_expiresIn (ex_params (Some ''did:jis:alice'') None (Some 60000)) = Some e
           \<longrightarrow> 1704067200000 < date_now (ex_env ''id-1'') + e"
    by (simp add: ex_params_def ex_env_def)
  have u: "uuid (ex_env ''id-1'') = ''id-1''"
    by (simp add: ex_env_def)
  have d: "or_default (p_actor (ex_params (Some ''did:jis:alice'') None (Some 60000)))
             (defaultActor (new_TIBET None)) \<noteq> ''anonymous''"
    by (simp add: ex_params_def or_default_def)
  have e: "p_parentId (ex_params (Some ''did:jis:alice'') None (Some 60000)) = None"
    "p_expiresIn (ex_params (Some ''did:jis:alice'') None (Some 60000)) = Some 60000"
    "(1704067200000 :: int) < date_now (ex_env ''id-1'') + 60000"
    by (simp_all add: ex_params_def ex_env_def)
  show ?thesis
    using a d e verify_after_create[OF a b c]
    unfolding ex_created_ttl_def[symmetric] u by simp
qed

section \<open>Properties of getChain\<close>

lemma linked_snoc2:
  "linked h s (rs @ [q, r]) = (linked h s (rs @ [q]) \<and> parent_of h s r = Some q)"
proof (induction rs)
  case Nil
  show ?case by auto
next
  case (Cons a rs)
  then show ?case by (cases rs) auto
qed

text \<open>A lineage is walked to its root, and whatever the walk returns is a lineage.\<close>

lemma getChain_loop_walk:
  "linked h s (rs @ [r]) \<Longrightarrow> parent_of h s (hd (rs @ [r])) = None \<Longrightarrow>
     getChain_loop h s (Some r) acc = Some (rs @ r # acc)"
proof (induction rs arbitrary: r acc rule: rev_induct)
  case Nil
  then show ?case by (subst getChain_loop.simps, subst getChain_loop.simps) simp
next
  case (snoc q rs)
  from snoc.prems(1) have l: "linked h s (rs @ [q])" and p: "parent_of h s r = Some q"
    by (simp_all add: linked_snoc2)
  from snoc.prems(2) have "parent_of h s (hd (rs @ [q])) = None"
    by (cases rs) simp_all
  from snoc.IH[OF l this, of "r # acc"] p show ?case
    by (subst getChain_loop.simps) simp
qed

lemma getChain_loop_returns:
  assumes "getChain_loop h s cur acc = Some res"
  shows "case cur of
           None \<Rightarrow> res = acc
         | Some r \<Rightarrow> \<exists>rs. res = rs @ r # acc \<and> linked h s (rs @ [r])
                          \<and> parent_of h s (hd (rs @ [r])) = None"
  using assms
proof (induction rule: getChain_loop.raw_induct[rotated 1, consumes 1])
  case (1 loop h s cur acc res)
  show ?case
  proof (cases cur)
    case None
    with 1(2) show ?thesis by simp
  next
    case (Some r)
    with 1(2) have call: "loop h s (parent_of h s r) (r # acc) = Some res" by simp
    show ?thesis
    proof (cases "parent_of h s r")
      case None
      with 1(1)[OF call] have "res = r # acc" by simp
      with None Some show ?thesis by simp
    next
      case (Some q)
      with 1(1)[OF call] obtain rs where rs: "res = rs @ q # r # acc"
        "linked h s (rs @ [q])" "parent_of h s (hd (rs @ [q])) = None"
        by auto
      have "res = (rs @ [q]) @ r # acc" using rs(1) by simp
      moreover have "linked h s ((rs @ [q]) @ [r])"
        using rs(2) Some by (simp add: linked_snoc2)
      moreover have "parent_of h s (hd ((rs @ [q]) @ [r])) = None"
        using rs(3) by (cases rs) simp_all
      ultimately show ?thesis using \<open>cur = Some r\<close> by (simp only: option.case) blast
    qed
  qed
qed

text \<open>On a set of tokens that is closed under the parent link, each with a parent that
  resolves, the walk never returns.\<close>

lemma getChain_loop_cycle_aux:
  assumes "getChain_loop h s cur acc = Some res"
  shows "(\<forall>r\<in>C. \<exists>q\<in>C. parent_of h s r = Some q) \<longrightarrow> (\<forall>r. cur = Some r \<longrightarrow> r \<notin> C)"
  using assms
proof (induction rule: getChain_loop.raw_induct[rotated 1, consumes 1])
  case (1 loop h s cur acc res)
  show ?case
  proof (intro impI allI)
    fix r
    assume closed: "\<forall>r\<in>C. \<exists>q\<in>C. parent_of h s r = Some q" and cur: "cur = Some r"
    show "r \<notin> C"
    proof
      assume "r \<in> C"
      with closed obtain q where q: "q \<in> C" "parent_of h s r = Some q" by blast
      with 1(2) cur have "loop h s (Some q) (r # acc) = Some res" by simp
      from 1(1)[OF this] closed have "q \<notin> C" by simp
      with q(1) show False by simp
    qed
  qed
qed

lemma getChain_loop_cycle:
  assumes "\<forall>r\<in>C. \<exists>q\<in>C. parent_of h s r = Some q" and "r \<in> C"
  shows "getChain_loop h s (Some r) acc = None"
proof (cases "getChain_loop h s (Some r) acc")
  case None
  then show ?thesis .
next
  case (Some res)
  from getChain_loop_cycle_aux[OF Some, of C] assms show ?thesis by simp
qed

lemma getChain_unknown: "tokens s i = None \<Longrightarrow> getChain h s i = Some None"
  by (simp add: getChain_def)

lemma getChain_ancestry:
  assumes a: "ancestry h s rs" and i: "tokens s i = Some (last rs)"
  shows "getChain h s i =
           Some (Some \<lparr>length' = length rs, tokens' = rs,
                       origin = Some (hd rs), current = Some (last rs)\<rparr>)"
proof -
  from a have ne: "rs \<noteq> []" and root: "parent_of h s (hd rs) = None" and l: "linked h s rs"
    by (simp_all add: ancestry_def)
  from ne have split: "butlast rs @ [last rs] = rs" by simp
  have "getChain_loop h s (Some (last rs)) [] = Some (butlast rs @ last rs # [])"
    by (rule getChain_loop_walk) (simp_all add: split l root)
  then have loop: "getChain_loop h s (Some (last rs)) [] = Some rs"
    using split by simp
  have o: "js_index rs 0 = Some (hd rs)"
    using ne by (simp add: js_index_def hd_conv_nth)
  have "nat (int (length rs) - 1) = length rs - 1" by simp
  then have c: "js_index rs (int (length rs) - 1) = Some (last rs)"
    using ne by (simp add: js_index_def last_conv_nth)
  show ?thesis
    by (simp add: getChain_def i loop o c)
qed

lemma getChain_returns:
  assumes "getChain h s i = Some (Some c)"
  shows "ancestry h s (tokens' c) \<and> tokens s i = Some (last (tokens' c))"
proof -
  from assms obtain r res where r: "tokens s i = Some r"
    and loop: "getChain_loop h s (Some r) [] = Some res" and c: "tokens' c = res"
    by (auto simp: getChain_def split: option.splits)
  from getChain_loop_returns[OF loop] obtain rs where
    "res = rs @ [r]" "linked h s (rs @ [r])" "parent_of h s (hd (rs @ [r])) = None"
    by auto
  with r c show ?thesis by (simp add: ancestry_def)
qed

text \<open>
  C7. With \<open>A\<close> stored without a parent that resolves, \<open>B\<close> with parent \<open>A\<close> and \<open>C\<close>
  with parent \<open>B\<close> (identifiers are not empty strings), \<open>getChain\<close> of \<open>C\<close> returns
  length 3, the tokens \<open>[A, B, C]\<close>, origin \<open>A\<close> and current \<open>C\<close>. In general, for
  every lineage \<open>rs\<close> in ancestor-to-descendant order that starts at a token without a
  resolving parent, \<open>getChain\<close> of its last token returns exactly \<open>rs\<close>.
\<close>

theorem getChain_order:
  "(tokens s ida = Some ra \<and> parent_of h s ra = None \<and>
    tokens s idb = Some rb \<and> parentId (h ! rb) = Some ida \<and> ida \<noteq> [] \<and>
    tokens s idc = Some rc \<and> parentId (h ! rc) = Some idb \<and> idb \<noteq> []
    \<longrightarrow> getChain h s idc =
          Some (Some \<lparr>length' = 3, tokens' = [ra, rb, rc],
                      origin = Some ra, current = Some rc\<rparr>))
   \<and> (ancestry h s rs \<and> tokens s i = Some (last rs)
      \<longrightarrow> getChain h s i =
          Some (Some \<lparr>length' = length rs, tokens' = rs,
                      origin = Some (hd rs), current = Some (last rs)\<rparr>))"
proof (intro conjI impI)
  assume "ancestry h s rs \<and> tokens s i = Some (last rs)"
  then show "getChain h s i =
          Some (Some \<lparr>length' = length rs, tokens' = rs,
                      origin = Some (hd rs), current = Some (last rs)\<rparr>)"
    by (simp add: getChain_ancestry)
next
  assume abc: "tokens s ida = Some ra \<and> parent_of h s ra = None \<and>
    tokens s idb = Some rb \<and> parentId (h ! rb) = Some ida \<and> ida \<noteq> [] \<and>
    tokens s idc = Some rc \<and> parentId (h ! rc) = Some idb \<and> idb \<noteq> []"
  then have "ancestry h s [ra, rb, rc]"
    by (simp add: ancestry_def parent_of_def)
  moreover from abc have "tokens s idc = Some (last [ra, rb, rc])" by simp
  ultimately show "getChain h s idc =
          Some (Some \<lparr>length' = 3, tokens' = [ra, rb, rc],
                      origin = Some ra, current = Some rc\<rparr>)"
    using getChain_ancestry[of h s "[ra, rb, rc]" idc] by simp
qed

text \<open>
  C5, as amended. \<open>getChain\<close> returns exactly when the identifier is unknown or the
  parent links followed from it reach, after finitely many steps, a token without a
  resolving parent. The loop has no guard against a cycle: where the links loop back,
  the walk does not return.
\<close>

theorem getChain_terminates_iff:
  "getChain h s i \<noteq> None \<longleftrightarrow>
     (tokens s i = None \<or> (\<exists>rs. ancestry h s rs \<and> tokens s i = Some (last rs)))"
proof
  assume "getChain h s i \<noteq> None"
  then obtain res where res: "getChain h s i = Some res" by auto
  show "tokens s i = None \<or> (\<exists>rs. ancestry h s rs \<and> tokens s i = Some (last rs))"
  proof (cases res)
    case None
    with res show ?thesis by (auto simp: getChain_def split: option.splits)
  next
    case (Some c)
    with res getChain_returns[of h s i c] show ?thesis by blast
  qed
next
  assume "tokens s i = None \<or> (\<exists>rs. ancestry h s rs \<and> tokens s i = Some (last rs))"
  then show "getChain h s i \<noteq> None"
    by (auto simp: getChain_unknown getChain_ancestry)
qed

lemma ex_chain_facts:
  "tokens (snd ex_chain) ''id-a'' = Some 0"
  "tokens (snd ex_chain) ''id-b'' = Some 1"
  "tokens (snd ex_chain) ''id-c'' = Some 2"
  "parentId (fst ex_chain ! 0) = None"
  "parentId (fst ex_chain ! 1) = Some ''id-a''"
  "parentId (fst ex_chain ! Suc 0) = Some ''id-a''"
  "parentId (fst ex_chain ! 2) = Some ''id-b''"
  by (simp_all add: ex_chain_def createToken_def Let_def expiry_def ex_params_def ex_env_def)

theorem getChain_order_witness:
  "tokens (snd ex_chain) ''id-a'' = Some 0 \<and> parent_of (fst ex_chain) (snd ex_chain) 0 = None
   \<and> tokens (snd ex_chain) ''id-b'' = Some 1 \<and> parentId (fst ex_chain ! 1) = Some ''id-a''
   \<and> tokens (snd ex_chain) ''id-c'' = Some 2 \<and> parentId (fst ex_chain ! 2) = Some ''id-b''
   \<and> ancestry (fst ex_chain) (snd ex_chain) [0, 1, 2]
   \<and> getChain (fst ex_chain) (snd ex_chain) ''id-c'' =
       Some (Some \<lparr>length' = 3, tokens' = [0, 1, 2], origin = Some 0, current = Some 2\<rparr>)"
proof -
  have p: "parent_of (fst ex_chain) (snd ex_chain) 0 = None"
    by (simp add: parent_of_def ex_chain_facts)
  have a: "ancestry (fst ex_chain) (snd ex_chain) [0, 1, 2]"
    by (simp add: ancestry_def parent_of_def ex_chain_facts)
  show ?thesis
    using p a ex_chain_facts
      getChain_order[of "snd ex_chain" "''id-a''" 0 "fst ex_chain" "''id-b''" 1 "''id-c''" 2
                        "[0, 1, 2]" "''id-c''"]
    by simp
qed

text \<open>Two imported tokens that name each other as parent: the walk from either does
  not return.\<close>

lemma ex_cycle_facts:
  "tokens (snd ex_cycle) ''x'' = Some 0"
  "tokens (snd ex_cycle) ''y'' = Some 1"
  "parentId (fst ex_cycle ! 0) = Some ''y''"
  "parentId (fst ex_cycle ! 1) = Some ''x''"
  "parentId (fst ex_cycle ! Suc 0) = Some ''x''"
  by (simp_all add: ex_cycle_def created_token_def ex_params_def)

theorem getChain_cycle_counterexample:
  "getChain (fst ex_cycle) (snd ex_cycle) ''x'' = None"
proof -
  have "\<forall>r\<in>{0, 1}. \<exists>q\<in>{0, 1}. parent_of (fst ex_cycle) (snd ex_cycle) r = Some q"
    by (simp add: parent_of_def ex_cycle_facts)
  then have "getChain_loop (fst ex_cycle) (snd ex_cycle) (Some 0) [] = None"
    by (rule getChain_loop_cycle) simp
  then show ?thesis by (simp add: getChain_def ex_cycle_facts)
qed

theorem getChain_terminates_iff_witness:
  "ancestry (fst ex_chain) (snd ex_chain) [0, 1, 2]
   \<and> tokens (snd ex_chain) ''id-c'' = Some (last [0, 1, 2])
   \<and> getChain (fst ex_chain) (snd ex_chain) ''id-c'' \<noteq> None
   \<and> getChain (fst ex_chain) (snd ex_chain) ''id-zzz'' \<noteq> None"
proof -
  have a: "ancestry (fst ex_chain) (snd ex_chain) [0, 1, 2]"
    by (simp add: ancestry_def parent_of_def ex_chain_facts)
  have t: "tokens (snd ex_chain) ''id-c'' = Some (last [0, 1, 2])"
    by (simp add: ex_chain_facts)
  have u: "tokens (snd ex_chain) ''id-zzz'' = None"
    by (simp add: ex_chain_def createToken_def Let_def expiry_def ex_params_def ex_env_def
          new_TIBET_def)
  from a t have "\<exists>rs. ancestry (fst ex_chain) (snd ex_chain) rs
                    \<and> tokens (snd ex_chain) ''id-c'' = Some (last rs)" by blast
  with a t u show ?thesis
    using getChain_terminates_iff[of "fst ex_chain" "snd ex_chain" "''id-c''"]
          getChain_terminates_iff[of "fst ex_chain" "snd ex_chain" "''id-zzz''"]
    by simp
qed

section \<open>Properties of the consent manager\<close>

lemma createToken_no_expiry:
  "p_expiresIn p = None \<Longrightarrow>
     createToken sha env h s p =
       (Inr (length h), h @ [created_token sha env s p None],
        s\<lparr>tokens := (tokens s)(uuid env \<mapsto> length h)\<rparr>)"
  by (rule createToken_Inr) (simp add: expiry_def)

lemma updateState_Some:
  "tokens s i = Some r \<Longrightarrow>
     updateState h s i st = (Some r, h[r := (h ! r)\<lparr>state := st\<rparr>], s)"
  by (simp add: updateState_def map_upd_triv)

lemma updateState_new:
  "updateState (h @ [t]) (s\<lparr>tokens := (tokens s)(i \<mapsto> length h)\<rparr>) i st =
   (Some (length h), h @ [t\<lparr>state := st\<rparr>],
    s\<lparr>tokens := (tokens s)(i \<mapsto> length h)\<rparr>)"
  by (subst updateState_Some[where r = "length h"]) simp_all

lemma accept_unknown:
  "proposals m pid = None \<Longrightarrow>
     accept sha stamp env h m pid did = (Inl (Error (''Proposal not found: '' @ pid)), h, m)"
  by (simp add: accept_def)

lemma accept_mismatch:
  "proposals m pid = Some pr \<Longrightarrow>
   truthy (js_get (what (provenance (h ! token pr))) ''to'') \<Longrightarrow>
   js_get (what (provenance (h ! token pr))) ''to'' \<noteq> JStr did \<Longrightarrow>
     accept sha stamp env h m pid did =
       (Inl (Error ''Acceptor does not match intended recipient''), h, m)"
  by (simp add: accept_def Let_def)

lemma accept_ok:
  assumes known: "proposals m pid = Some pr"
    and store: "tokens (tibet m) pid = Some r"
    and fresh: "tokens (tibet m) (uuid env) = None"
    and guard: "\<not> (truthy (js_get (what (provenance (h ! token pr))) ''to'')
                  \<and> js_get (what (provenance (h ! token pr))) ''to'' \<noteq> JStr did)"
  shows "accept sha stamp env h m pid did =
     (Inr \<lparr>proposalId = pid, accepted = True, token' = length h, reason = None\<rparr>,
      respond_heap h (created_token sha env (tibet m)
                        (accept_params (provenance (h ! token pr)) stamp pid did) None)
                   r ACCEPTED,
      m\<lparr>tibet := (tibet m)\<lparr>tokens := (tokens (tibet m))(uuid env \<mapsto> length h)\<rparr>\<rparr>)"
proof -
  let ?p = "accept_params (provenance (h ! token pr)) stamp pid did"
  let ?t = "created_token sha env (tibet m) ?p None"
  let ?s1 = "(tibet m)\<lparr>tokens := (tokens (tibet m))(uuid env \<mapsto> length h)\<rparr>"
  from store fresh have ne: "pid \<noteq> uuid env" by auto
  have tid: "tokenId ?t = uuid env" by (simp add: created_token_def)
  have c: "createToken sha env h (tibet m) ?p = (Inr (length h), h @ [?t], ?s1)"
    by (rule createToken_no_expiry) (simp add: accept_params_def)
  have u1: "updateState (h @ [?t]) ?s1 (uuid env) ACCEPTED =
              (Some (length h), h @ [?t\<lparr>state := ACCEPTED\<rparr>], ?s1)"
    by (rule updateState_new)
  have u2: "updateState (h @ [?t\<lparr>state := ACCEPTED\<rparr>]) ?s1 pid ACCEPTED =
              (Some r, respond_heap h ?t r ACCEPTED, ?s1)"
    unfolding respond_heap_def by (rule updateState_Some) (simp add: ne store)
  show ?thesis
    using known guard by (simp add: accept_def Let_def c tid u1 u2)
qed

lemma reject_unknown:
  "proposals m pid = None \<Longrightarrow>
     reject sha stamp env h m pid did w = (Inl (Error (''Proposal not found: '' @ pid)), h, m)"
  by (simp add: reject_def)

lemma reject_ok:
  assumes known: "proposals m pid = Some pr"
    and store: "tokens (tibet m) pid = Some r"
    and fresh: "tokens (tibet m) (uuid env) = None"
  shows "reject sha stamp env h m pid did w =
     (Inr \<lparr>proposalId = pid, accepted = False, token' = length h, reason = w\<rparr>,
      respond_heap h (created_token sha env (tibet m)
                        (reject_params (provenance (h ! token pr)) stamp pid did w) None)
                   r REJECTED,
      m\<lparr>tibet := (tibet m)\<lparr>tokens := (tokens (tibet m))(uuid env \<mapsto> length h)\<rparr>\<rparr>)"
proof -
  let ?p = "reject_params (provenance (h ! token pr)) stamp pid did w"
  let ?t = "created_token sha env (tibet m) ?p None"
  let ?s1 = "(tibet m)\<lparr>tokens := (tokens (tibet m))(uuid env \<mapsto> length h)\<rparr>"
  from store fresh have ne: "pid \<noteq> uuid env" by auto
  have tid: "tokenId ?t = uuid env" by (simp add: created_token_def)
  have c: "createToken sha env h (tibet m) ?p = (Inr (length h), h @ [?t], ?s1)"
    by (rule createToken_no_expiry) (simp add: reject_params_def)
  have u1: "updateState (h @ [?t]) ?s1 (uuid env) REJECTED =
              (Some (length h), h @ [?t\<lparr>state := REJECTED\<rparr>], ?s1)"
    by (rule updateState_new)
  have u2: "updateState (h @ [?t\<lparr>state := REJECTED\<rparr>]) ?s1 pid REJECTED =
              (Some r, respond_heap h ?t r REJECTED, ?s1)"
    unfolding respond_heap_def by (rule updateState_Some) (simp add: ne store)
  show ?thesis
    using known by (simp add: reject_def Let_def c tid u1 u2)
qed

lemma propose_fail:
  assumes "expiry (date_now env) (expiresIn c) = Inl err"
  shows "propose sha stamp env h m c = (Inl err, h, m)"
proof -
  have "createToken sha env h (tibet m) (propose_params c stamp) = (Inl err, h, tibet m)"
    by (rule createToken_Inl) (simp add: propose_params_def assms)
  then show ?thesis by (simp add: propose_def)
qed

lemma propose_ok:
  assumes "expiry (date_now env) (expiresIn c) = Inr ex"
  shows "propose sha stamp env h m c =
     (Inr \<lparr>token = length h, acceptUrl = None, rejectUrl = None\<rparr>,
      h @ [(created_token sha env (tibet m) (propose_params c stamp) ex)\<lparr>state := PROPOSED\<rparr>],
      \<lparr>tibet = (tibet m)\<lparr>tokens := (tokens (tibet m))(uuid env \<mapsto> length h)\<rparr>,
       proposals = (proposals m)(uuid env \<mapsto>
                      \<lparr>token = length h, acceptUrl = None, rejectUrl = None\<rparr>)\<rparr>)"
proof -
  let ?t = "created_token sha env (tibet m) (propose_params c stamp) ex"
  let ?s1 = "(tibet m)\<lparr>tokens := (tokens (tibet m))(uuid env \<mapsto> length h)\<rparr>"
  have tid: "tokenId ?t = uuid env" by (simp add: created_token_def)
  have c: "createToken sha env h (tibet m) (propose_params c stamp) =
             (Inr (length h), h @ [?t], ?s1)"
    by (rule createToken_Inr) (simp add: propose_params_def assms)
  have u1: "updateState (h @ [?t]) ?s1 (uuid env) PROPOSED =
              (Some (length h), h @ [?t\<lparr>state := PROPOSED\<rparr>], ?s1)"
    by (rule updateState_new)
  show ?thesis
    by (simp add: propose_def Let_def c u1 tid)
qed

lemma respond_heap_length: "length (respond_heap h t r st) = Suc (length h)"
  by (simp add: respond_heap_def)

lemma respond_heap_target:
  "r < length h \<Longrightarrow> respond_heap h t r st ! r = (h ! r)\<lparr>state := st\<rparr>"
  by (simp add: respond_heap_def nth_append)

lemma respond_heap_other:
  "q < length h \<Longrightarrow> q \<noteq> r \<Longrightarrow> respond_heap h t r st ! q = h ! q"
  by (simp add: respond_heap_def nth_append)

lemma refs_ok_new_token:
  assumes ok: "refs_ok n T P" and fresh: "T i = None"
  shows "refs_ok (Suc n) (T(i \<mapsto> n)) P"
proof -
  from ok have a: "\<And>j r. T j = Some r \<Longrightarrow> r < n"
    and b: "\<And>j k r. T j = Some r \<Longrightarrow> T k = Some r \<Longrightarrow> j = k"
    and c: "\<And>p pr. P p = Some pr \<Longrightarrow> T p = Some (token pr)"
    unfolding refs_ok_def by blast+
  show ?thesis
    unfolding refs_ok_def
  proof (intro conjI allI impI)
    fix j r assume "(T(i \<mapsto> n)) j = Some r"
    then show "r < Suc n"
      using a[of j r] by (cases "j = i") simp_all
  next
    fix j k r assume h: "(T(i \<mapsto> n)) j = Some r \<and> (T(i \<mapsto> n)) k = Some r"
    show "j = k"
    proof (cases "j = i")
      case True
      with h have r: "r = n" by simp
      show ?thesis
      proof (cases "k = i")
        case True
        with \<open>j = i\<close> show ?thesis by simp
      next
        case False
        with h r have "T k = Some n" by simp
        from a[OF this] show ?thesis by simp
      qed
    next
      case False
      with h have tj: "T j = Some r" by simp
      show ?thesis
      proof (cases "k = i")
        case True
        with h have "r = n" by simp
        with a[OF tj] show ?thesis by simp
      next
        case False
        with h have "T k = Some r" by simp
        from b[OF tj this] show ?thesis .
      qed
    qed
  next
    fix p pr assume "P p = Some pr"
    from c[OF this] fresh have "T p = Some (token pr)" "p \<noteq> i" by auto
    then show "(T(i \<mapsto> n)) p = Some (token pr)" by simp
  qed
qed

lemma refs_ok_new_proposal:
  assumes ok: "refs_ok n T P" and fresh: "T i = None"
  shows "refs_ok (Suc n) (T(i \<mapsto> n))
           (P(i \<mapsto> \<lparr>token = n, acceptUrl = None, rejectUrl = None\<rparr>))"
proof -
  from refs_ok_new_token[OF ok fresh]
  have a: "\<And>j r. (T(i \<mapsto> n)) j = Some r \<Longrightarrow> r < Suc n"
    and b: "\<And>j k r. (T(i \<mapsto> n)) j = Some r \<Longrightarrow> (T(i \<mapsto> n)) k = Some r \<Longrightarrow> j = k"
    and c: "\<And>p pr. P p = Some pr \<Longrightarrow> (T(i \<mapsto> n)) p = Some (token pr)"
    unfolding refs_ok_def by blast+
  show ?thesis
    unfolding refs_ok_def
  proof (intro conjI allI impI)
    fix j r assume "(T(i \<mapsto> n)) j = Some r"
    then show "r < Suc n" by (rule a)
  next
    fix j k r assume "(T(i \<mapsto> n)) j = Some r \<and> (T(i \<mapsto> n)) k = Some r"
    then show "j = k" using b by blast
  next
    fix p pr
    assume h: "(P(i \<mapsto> \<lparr>token = n, acceptUrl = None, rejectUrl = None\<rparr>)) p = Some pr"
    show "(T(i \<mapsto> n)) p = Some (token pr)"
    proof (cases "p = i")
      case True
      with h show ?thesis by auto
    next
      case False
      with h have "P p = Some pr" by simp
      from c[OF this] show ?thesis .
    qed
  qed
qed

lemma consent_inv_new_token:
  assumes inv: "consent_inv h m" and fresh: "tokens (tibet m) i = None"
    and len: "length h' = Suc (length h)"
  shows "consent_inv h' (m\<lparr>tibet := (tibet m)\<lparr>tokens := (tokens (tibet m))(i \<mapsto> length h)\<rparr>\<rparr>)"
  using refs_ok_new_token[OF inv[unfolded consent_inv_def] fresh] len
  by (simp add: consent_inv_def)

lemma consent_inv_new_proposal:
  assumes inv: "consent_inv h m" and fresh: "tokens (tibet m) i = None"
    and len: "length h' = Suc (length h)"
  shows "consent_inv h'
           \<lparr>tibet = (tibet m)\<lparr>tokens := (tokens (tibet m))(i \<mapsto> length h)\<rparr>,
            proposals = (proposals m)(i \<mapsto>
                           \<lparr>token = length h, acceptUrl = None, rejectUrl = None\<rparr>)\<rparr>"
  using refs_ok_new_proposal[OF inv[unfolded consent_inv_def] fresh] len
  by (simp add: consent_inv_def)

lemma consent_inv_facts:
  assumes "consent_inv h m"
  shows "\<And>j r. tokens (tibet m) j = Some r \<Longrightarrow> r < length h"
    and "\<And>j k r. tokens (tibet m) j = Some r \<Longrightarrow> tokens (tibet m) k = Some r \<Longrightarrow> j = k"
    and "\<And>p pr. proposals m p = Some pr \<Longrightarrow> tokens (tibet m) p = Some (token pr)"
  using assms unfolding consent_inv_def refs_ok_def by blast+

lemma proposal_state_respond:
  assumes inv: "consent_inv h m"
    and known: "proposals m pid = Some pr"
    and target: "proposals m p = Some pr'"
  shows "proposal_state (respond_heap h t (token pr') st)
           (m\<lparr>tibet := (tibet m)\<lparr>tokens := (tokens (tibet m))(i \<mapsto> length h)\<rparr>\<rparr>) pid
         = Some (if p = pid then st else state (h ! token pr))"
proof -
  note f = consent_inv_facts[OF inv]
  have lt: "token pr < length h" using f(1)[OF f(3)[OF known]] .
  have lt': "token pr' < length h" using f(1)[OF f(3)[OF target]] .
  have ps: "proposal_state H (m\<lparr>tibet := S\<rparr>) pid = Some (state (H ! token pr))" for H S
    using known by (simp add: proposal_state_def)
  show ?thesis
  proof (cases "p = pid")
    case True
    with known target have "pr' = pr" by simp
    with True lt show ?thesis
      by (simp add: ps respond_heap_target)
  next
    case False
    have "token pr \<noteq> token pr'"
    proof
      assume "token pr = token pr'"
      with f(3)[OF known] f(3)[OF target] have "pid = p" by (intro f(2)) simp_all
      with False show False by simp
    qed
    with False lt show ?thesis
      by (simp add: ps respond_heap_other)
  qed
qed

lemma run_op_Propose:
  "propose sha stamp env h m c = (res, h', m') \<Longrightarrow>
     run_op sha stamp env h m (Propose c) = (\<not> isl res, h', m')"
  by (simp add: run_op_def)

lemma run_op_Accept:
  "accept sha stamp env h m p d = (res, h', m') \<Longrightarrow>
     run_op sha stamp env h m (Accept p d) = (\<not> isl res, h', m')"
  by (simp add: run_op_def)

lemma run_op_Reject:
  "reject sha stamp env h m p d w = (res, h', m') \<Longrightarrow>
     run_op sha stamp env h m (Reject p d w) = (\<not> isl res, h', m')"
  by (simp add: run_op_def)

text \<open>
  C3, as amended. \<open>accept\<close> and \<open>reject\<close> do not look at the state of the proposal.
  For a manager used through its own operations, with fresh identifiers, one more
  operation keeps that shape and changes the state of a proposal only when it is an
  \<open>accept\<close> or a \<open>reject\<close> of that proposal that returns: the state is then \<open>ACCEPTED\<close>,
  respectively \<open>REJECTED\<close>, whatever it was. So a terminal state stays terminal but
  is not final.
\<close>

theorem terminal_state_transitions:
  assumes inv: "consent_inv h m"
    and fresh: "tokens (tibet m) (uuid env) = None"
    and st: "proposal_state h m pid = Some st"
  shows "case run_op sha stamp env h m op of
           (ok, h', m') \<Rightarrow>
             consent_inv h' m'
           \<and> proposal_state h' m' pid =
               Some (if ok \<and> (\<exists>d. op = Accept pid d) then ACCEPTED
                     else if ok \<and> (\<exists>d w. op = Reject pid d w) then REJECTED
                     else st)
           \<and> (st \<in> {ACCEPTED, REJECTED} \<longrightarrow>
                proposal_state h' m' pid \<in> {Some ACCEPTED, Some REJECTED})"
proof -
  from st obtain pr where known: "proposals m pid = Some pr" and s: "state (h ! token pr) = st"
    by (auto simp: proposal_state_def split: option.splits)
  note f = consent_inv_facts[OF inv]
  have lt: "token pr < length h" using f(1)[OF f(3)[OF known]] .
  have ne: "pid \<noteq> uuid env" using f(3)[OF known] fresh by auto
  show ?thesis
  proof (cases op)
    case (Propose con)
    show ?thesis
    proof (cases "expiry (date_now env) (expiresIn con)")
      case (Inl err)
      show ?thesis
        unfolding Propose run_op_Propose[OF propose_fail[OF Inl]]
        using inv st by simp
    next
      case (Inr ex)
      let ?h = "h @ [(created_token sha env (tibet m) (propose_params con stamp) ex)
                       \<lparr>state := PROPOSED\<rparr>]"
      let ?m = "\<lparr>tibet = (tibet m)\<lparr>tokens := (tokens (tibet m))(uuid env \<mapsto> length h)\<rparr>,
            proposals = (proposals m)(uuid env \<mapsto>
                           \<lparr>token = length h, acceptUrl = None, rejectUrl = None\<rparr>)\<rparr>"
      have i: "consent_inv ?h ?m"
        by (rule consent_inv_new_proposal[OF inv fresh]) simp
      have p: "proposal_state ?h ?m pid = Some st"
        using known s lt ne by (simp add: proposal_state_def nth_append)
      show ?thesis
        unfolding Propose run_op_Propose[OF propose_ok[OF Inr]]
        using i p by simp
    qed
  next
    case (Accept p d)
    show ?thesis
    proof (cases "proposals m p")
      case None
      with known have "p \<noteq> pid" by auto
      then show ?thesis
        unfolding Accept run_op_Accept[OF accept_unknown[OF None]]
        using inv st by simp
    next
      case (Some pr')
      show ?thesis
      proof (cases "truthy (js_get (what (provenance (h ! token pr'))) ''to'')
                  \<and> js_get (what (provenance (h ! token pr'))) ''to'' \<noteq> JStr d")
        case True
        then show ?thesis
          unfolding Accept run_op_Accept[OF accept_mismatch[OF Some conjunct1[OF True] conjunct2[OF True]]]
          using inv st by simp
      next
        case False
        let ?h = "respond_heap h (created_token sha env (tibet m)
                        (accept_params (provenance (h ! token pr')) stamp p d) None)
                   (token pr') ACCEPTED"
        let ?m = "m\<lparr>tibet := (tibet m)\<lparr>tokens := (tokens (tibet m))(uuid env \<mapsto> length h)\<rparr>\<rparr>"
        have i: "consent_inv ?h ?m"
          by (rule consent_inv_new_token[OF inv fresh]) (simp add: respond_heap_length)
        have ps: "proposal_state ?h ?m pid = Some (if p = pid then ACCEPTED else st)"
          using proposal_state_respond[OF inv known Some] s by simp
        show ?thesis
          unfolding Accept run_op_Accept[OF accept_ok[OF Some f(3)[OF Some] fresh False]]
          using i ps by auto
      qed
    qed
  next
    case (Reject p d w)
    show ?thesis
    proof (cases "proposals m p")
      case None
      with known have "p \<noteq> pid" by auto
      then show ?thesis
        unfolding Reject run_op_Reject[OF reject_unknown[OF None]]
        using inv st by simp
    next
      case (Some pr')
      let ?h = "respond_heap h (created_token sha env (tibet m)
                      (reject_params (provenance (h ! token pr')) stamp p d w) None)
                 (token pr') REJECTED"
      let ?m = "m\<lparr>tibet := (tibet m)\<lparr>tokens := (tokens (tibet m))(uuid env \<mapsto> length h)\<rparr>\<rparr>"
      have i: "consent_inv ?h ?m"
        by (rule consent_inv_new_token[OF inv fresh]) (simp add: respond_heap_length)
      have ps: "proposal_state ?h ?m pid = Some (if p = pid then REJECTED else st)"
        using proposal_state_respond[OF inv known Some] s by simp
      show ?thesis
        unfolding Reject run_op_Reject[OF reject_ok[OF Some f(3)[OF Some] fresh]]
        using i ps by auto
    qed
  qed
qed

lemma consent_inv_new: "consent_inv [] (new_BilateralConsentManager a)"
  by (simp add: consent_inv_def refs_ok_def new_BilateralConsentManager_def new_TIBET_def)

lemma ex_proposed_facts:
  "fst ex_proposed = Inr \<lparr>token = 0, acceptUrl = None, rejectUrl = None\<rparr>"
  "consent_inv (fst (snd ex_proposed)) (snd (snd ex_proposed))"
  "proposals (snd (snd ex_proposed)) ''id-p'' = Some \<lparr>token = 0, acceptUrl = None, rejectUrl = None\<rparr>"
  "proposals (snd (snd ex_proposed)) ''nope'' = None"
  "tokens (tibet (snd (snd ex_proposed))) ''id-r'' = None"
  "tokens (tibet (snd (snd ex_proposed))) ''id-a'' = None"
  "proposal_state (fst (snd ex_proposed)) (snd (snd ex_proposed)) ''id-p'' = Some PROPOSED"
  "js_get (what (provenance (fst (snd ex_proposed) ! 0))) ''to'' = JStr ''did:jis:bob''"
proof -
  have e: "expiry (date_now (ex_env ''id-p'')) (expiresIn ex_consent) = Inr None"
    by (simp add: expiry_def ex_consent_def)
  note p = propose_ok[OF e, of None ex_stamp "[]" "new_BilateralConsentManager (Some ''did:jis:alice'')",
                     folded ex_proposed_def]
  have u: "uuid (ex_env ''id-p'') = ''id-p''" by (simp add: ex_env_def)
  have t0: "tokens (tibet (new_BilateralConsentManager (Some ''did:jis:alice''))) i = None" for i
    by (simp add: new_BilateralConsentManager_def new_TIBET_def)
  have p0: "proposals (new_BilateralConsentManager (Some ''did:jis:alice'')) i = None" for i
    by (simp add: new_BilateralConsentManager_def)
  show "fst ex_proposed = Inr \<lparr>token = 0, acceptUrl = None, rejectUrl = None\<rparr>"
    by (simp add: p)
  show "consent_inv (fst (snd ex_proposed)) (snd (snd ex_proposed))"
    unfolding p fst_conv snd_conv
    using consent_inv_new_proposal[OF consent_inv_new t0, where h' = "[x]" for x]
    by simp
  show "proposals (snd (snd ex_proposed)) ''id-p'' = Some \<lparr>token = 0, acceptUrl = None, rejectUrl = None\<rparr>"
    by (simp add: p u)
  show "proposals (snd (snd ex_proposed)) ''nope'' = None"
    by (simp add: p u p0)
  show "tokens (tibet (snd (snd ex_proposed))) ''id-r'' = None"
    by (simp add: p u t0)
  show "tokens (tibet (snd (snd ex_proposed))) ''id-a'' = None"
    by (simp add: p u t0)
  show "proposal_state (fst (snd ex_proposed)) (snd (snd ex_proposed)) ''id-p'' = Some PROPOSED"
    by (simp add: p u proposal_state_def)
  show "js_get (what (provenance (fst (snd ex_proposed) ! 0))) ''to'' = JStr ''did:jis:bob''"
    by (simp add: p created_token_def propose_params_def ex_consent_def)
qed

lemma ex_rejected_facts:
  "\<not> isl (fst ex_rejected)"
  "consent_inv (fst (snd ex_rejected)) (snd (snd ex_rejected))"
  "proposals (snd (snd ex_rejected)) ''id-p'' = Some \<lparr>token = 0, acceptUrl = None, rejectUrl = None\<rparr>"
  "tokens (tibet (snd (snd ex_rejected))) ''id-a'' = None"
  "proposal_state (fst (snd ex_rejected)) (snd (snd ex_rejected)) ''id-p'' = Some REJECTED"
  "js_get (what (provenance (fst (snd ex_rejected) ! 0))) ''to'' = JStr ''did:jis:bob''"
proof -
  let ?h = "fst (snd ex_proposed)" and ?m = "snd (snd ex_proposed)"
  note f = consent_inv_facts[OF ex_proposed_facts(2)]
  have u: "uuid (ex_env ''id-r'') = ''id-r''" by (simp add: ex_env_def)
  have fresh: "tokens (tibet ?m) (uuid (ex_env ''id-r'')) = None"
    by (simp add: u ex_proposed_facts)
  have store: "tokens (tibet ?m) ''id-p'' = Some 0"
    using f(3)[OF ex_proposed_facts(3)] by simp
  note r = reject_ok[OF ex_proposed_facts(3) store fresh,
                     of None ex_stamp ?h "''did:jis:bob''" "Some ''no thanks''",
                     folded ex_rejected_def]
  have lt: "0 < length ?h" using f(1)[OF store] .
  have fa: "tokens (tibet ?m) ''id-a'' = None"
    by (rule ex_proposed_facts(6))
  show "\<not> isl (fst ex_rejected)" by (simp add: r)
  show "consent_inv (fst (snd ex_rejected)) (snd (snd ex_rejected))"
    unfolding r fst_conv snd_conv
    by (rule consent_inv_new_token[OF ex_proposed_facts(2) fresh]) (simp add: respond_heap_length)
  show "proposals (snd (snd ex_rejected)) ''id-p'' = Some \<lparr>token = 0, acceptUrl = None, rejectUrl = None\<rparr>"
    by (simp add: r ex_proposed_facts)
  show "tokens (tibet (snd (snd ex_rejected))) ''id-a'' = None"
    by (simp add: r u fa)
  show "proposal_state (fst (snd ex_rejected)) (snd (snd ex_rejected)) ''id-p'' = Some REJECTED"
    unfolding r fst_conv snd_conv
    using proposal_state_respond[OF ex_proposed_facts(2) ex_proposed_facts(3) ex_proposed_facts(3)]
    by simp
  show "js_get (what (provenance (fst (snd ex_rejected) ! 0))) ''to'' = JStr ''did:jis:bob''"
    using respond_heap_target[OF lt] ex_proposed_facts(8) by (simp add: r)
qed

text \<open>After \<open>propose\<close> and a \<open>reject\<close> that returns, an \<open>accept\<close> of the same proposal
  by the recipient returns too and the proposal is \<open>ACCEPTED\<close>.\<close>

theorem reject_then_accept_counterexample:
  "proposal_state (fst (snd ex_proposed)) (snd (snd ex_proposed)) ''id-p'' = Some PROPOSED
   \<and> \<not> isl (fst ex_rejected)
   \<and> proposal_state (fst (snd ex_rejected)) (snd (snd ex_rejected)) ''id-p'' = Some REJECTED
   \<and> \<not> isl (fst ex_reaccepted)
   \<and> proposal_state (fst (snd ex_reaccepted)) (snd (snd ex_reaccepted)) ''id-p'' = Some ACCEPTED"
proof -
  let ?h = "fst (snd ex_rejected)" and ?m = "snd (snd ex_rejected)"
  note f = consent_inv_facts[OF ex_rejected_facts(2)]
  have u: "uuid (ex_env ''id-a'') = ''id-a''" by (simp add: ex_env_def)
  have fresh: "tokens (tibet ?m) (uuid (ex_env ''id-a'')) = None"
    by (simp add: u ex_rejected_facts)
  have store: "tokens (tibet ?m) ''id-p'' = Some (token \<lparr>token = 0, acceptUrl = None, rejectUrl = None\<rparr>)"
    by (rule f(3)[OF ex_rejected_facts(3)])
  have guard: "\<not> (truthy (js_get (what (provenance (?h ! token \<lparr>token = 0, acceptUrl = None, rejectUrl = None\<rparr>))) ''to'')
        \<and> js_get (what (provenance (?h ! token \<lparr>token = 0, acceptUrl = None, rejectUrl = None\<rparr>))) ''to''
             \<noteq> JStr ''did:jis:bob'')"
    by (simp add: ex_rejected_facts)
  note a = accept_ok[OF ex_rejected_facts(3) store fresh guard, of None ex_stamp,
                     folded ex_reaccepted_def]
  have "proposal_state (fst (snd ex_reaccepted)) (snd (snd ex_reaccepted)) ''id-p'' = Some ACCEPTED"
    unfolding a fst_conv snd_conv
    using proposal_state_respond[OF ex_rejected_facts(2) ex_rejected_facts(3) ex_rejected_facts(3)]
    by simp
  moreover have "\<not> isl (fst ex_reaccepted)" by (simp add: a)
  ultimately show ?thesis
    using ex_proposed_facts(7) ex_rejected_facts(1) ex_rejected_facts(5) by simp
qed

theorem terminal_state_transitions_witness:
  "consent_inv (fst (snd ex_rejected)) (snd (snd ex_rejected))
   \<and> tokens (tibet (snd (snd ex_rejected))) (uuid (ex_env ''id-a'')) = None
   \<and> proposal_state (fst (snd ex_rejected)) (snd (snd ex_rejected)) ''id-p'' = Some REJECTED
   \<and> proposal_state
        (fst (snd (run_op None ex_stamp (ex_env ''id-a'') (fst (snd ex_rejected))
                     (snd (snd ex_rejected)) (Propose ex_consent))))
        (snd (snd (run_op None ex_stamp (ex_env ''id-a'') (fst (snd ex_rejected))
                     (snd (snd ex_rejected)) (Propose ex_consent)))) ''id-p'' = Some REJECTED
   \<and> proposal_state
        (fst (snd (run_op None ex_stamp (ex_env ''id-a'') (fst (snd ex_rejected))
                     (snd (snd ex_rejected)) (Accept ''id-p'' ''did:jis:bob''))))
        (snd (snd (run_op None ex_stamp (ex_env ''id-a'') (fst (snd ex_rejected))
                     (snd (snd ex_rejected)) (Accept ''id-p'' ''did:jis:bob'')))) ''id-p''
       \<in> {Some ACCEPTED, Some REJECTED}"
proof -
  have fresh: "tokens (tibet (snd (snd ex_rejected))) (uuid (ex_env ''id-a'')) = None"
    by (simp add: ex_env_def ex_rejected_facts)
  show ?thesis
    using ex_rejected_facts(2) fresh ex_rejected_facts(5)
      terminal_state_transitions[OF ex_rejected_facts(2) fresh ex_rejected_facts(5),
        where sha = None and stamp = ex_stamp and op = "Propose ex_consent"]
      terminal_state_transitions[OF ex_rejected_facts(2) fresh ex_rejected_facts(5),
        where sha = None and stamp = ex_stamp and op = "Accept ''id-p'' ''did:jis:bob''"]
    by (simp add: case_prod_beta)
qed

lemma accept_returns:
  assumes "proposals m pid = Some pr"
    and "\<not> (truthy (js_get (what (provenance (h ! token pr))) ''to'')
            \<and> js_get (what (provenance (h ! token pr))) ''to'' \<noteq> JStr did)"
  shows "\<not> isl (fst (accept sha stamp env h m pid did))"
proof -
  have "p_expiresIn (accept_params (provenance (h ! token pr)) stamp pid did) = None"
    by (simp add: accept_params_def)
  from createToken_no_expiry[OF this] assms show ?thesis
    by (simp add: accept_def Let_def split: prod.splits)
qed

text \<open>
  C8, as amended. \<open>accept\<close> throws \<open>Proposal not found\<close> for an identifier that is not
  in the proposal index, and \<open>Acceptor does not match intended recipient\<close> when the
  \<open>to\<close> of the original token's \<open>what\<close> is truthy (for a string: not empty) and is
  not the acceptor. In both cases the heap and the manager are returned as they were:
  no token is created and no state is changed. In every other case, an absent or
  empty \<open>to\<close> among them, \<open>accept\<close> does not throw.
\<close>

theorem accept_failures_leave_state:
  "(proposals m pid = None \<longrightarrow>
      accept sha stamp env h m pid did =
        (Inl (Error (''Proposal not found: '' @ pid)), h, m))
   \<and> (\<forall>pr. proposals m pid = Some pr
           \<and> truthy (js_get (what (provenance (h ! token pr))) ''to'')
           \<and> js_get (what (provenance (h ! token pr))) ''to'' \<noteq> JStr did \<longrightarrow>
      accept sha stamp env h m pid did =
        (Inl (Error ''Acceptor does not match intended recipient''), h, m))
   \<and> (\<forall>pr. proposals m pid = Some pr
           \<and> \<not> (truthy (js_get (what (provenance (h ! token pr))) ''to'')
                \<and> js_get (what (provenance (h ! token pr))) ''to'' \<noteq> JStr did) \<longrightarrow>
      \<not> isl (fst (accept sha stamp env h m pid did)))"
  using accept_returns[of m pid _ h did sha stamp env]
  by (simp add: accept_unknown accept_mismatch)

theorem accept_failures_leave_state_witness:
  "proposals (snd (snd ex_proposed)) ''nope'' = None
   \<and> accept None ex_stamp (ex_env ''id-a'') (fst (snd ex_proposed)) (snd (snd ex_proposed))
        ''nope'' ''did:jis:bob''
      = (Inl (Error ''Proposal not found: nope''), fst (snd ex_proposed), snd (snd ex_proposed))
   \<and> proposals (snd (snd ex_proposed)) ''id-p''
        = Some \<lparr>token = 0, acceptUrl = None, rejectUrl = None\<rparr>
   \<and> truthy (js_get (what (provenance (fst (snd ex_proposed) ! 0))) ''to'')
   \<and> js_get (what (provenance (fst (snd ex_proposed) ! 0))) ''to'' \<noteq> JStr ''did:jis:carol''
   \<and> accept None ex_stamp (ex_env ''id-a'') (fst (snd ex_proposed)) (snd (snd ex_proposed))
        ''id-p'' ''did:jis:carol''
      = (Inl (Error ''Acceptor does not match intended recipient''),
         fst (snd ex_proposed), snd (snd ex_proposed))"
  using ex_proposed_facts(3,4,8)
    accept_failures_leave_state[of "snd (snd ex_proposed)" "''nope''" None ex_stamp
       "ex_env ''id-a''" "fst (snd ex_proposed)" "''did:jis:bob''"]
    accept_failures_leave_state[of "snd (snd ex_proposed)" "''id-p''" None ex_stamp
       "ex_env ''id-a''" "fst (snd ex_proposed)" "''did:jis:carol''"]
  by simp

lemma ex_proposed_open_facts:
  "\<not> isl (fst ex_proposed_open)"
  "length (fst (snd ex_proposed_open)) = 1"
  "consent_inv (fst (snd ex_proposed_open)) (snd (snd ex_proposed_open))"
  "proposals (snd (snd ex_proposed_open)) ''id-p''
     = Some \<lparr>token = 0, acceptUrl = None, rejectUrl = None\<rparr>"
  "tokens (tibet (snd (snd ex_proposed_open))) ''id-a'' = None"
  "proposal_state (fst (snd ex_proposed_open)) (snd (snd ex_proposed_open)) ''id-p''
     = Some PROPOSED"
  "js_get (what (provenance (fst (snd ex_proposed_open) ! 0))) ''to'' = JStr []"
proof -
  have e: "expiry (date_now (ex_env ''id-p'')) (expiresIn ex_consent_open) = Inr None"
    by (simp add: expiry_def ex_consent_open_def)
  note p = propose_ok[OF e, of None ex_stamp "[]"
                     "new_BilateralConsentManager (Some ''did:jis:alice'')",
                     folded ex_proposed_open_def]
  have u: "uuid (ex_env ''id-p'') = ''id-p''" by (simp add: ex_env_def)
  have t0: "tokens (tibet (new_BilateralConsentManager (Some ''did:jis:alice''))) i = None" for i
    by (simp add: new_BilateralConsentManager_def new_TIBET_def)
  show "\<not> isl (fst ex_proposed_open)" by (simp add: p)
  show "length (fst (snd ex_proposed_open)) = 1" by (simp add: p)
  show "consent_inv (fst (snd ex_proposed_open)) (snd (snd ex_proposed_open))"
    unfolding p fst_conv snd_conv
    using consent_inv_new_proposal[OF consent_inv_new t0, where h' = "[x]" for x]
    by simp
  show "proposals (snd (snd ex_proposed_open)) ''id-p''
          = Some \<lparr>token = 0, acceptUrl = None, rejectUrl = None\<rparr>"
    by (simp add: p u)
  show "tokens (tibet (snd (snd ex_proposed_open))) ''id-a'' = None"
    by (simp add: p u t0)
  show "proposal_state (fst (snd ex_proposed_open)) (snd (snd ex_proposed_open)) ''id-p''
          = Some PROPOSED"
    by (simp add: p u proposal_state_def)
  show "js_get (what (provenance (fst (snd ex_proposed_open) ! 0))) ''to'' = JStr []"
    by (simp add: p created_token_def propose_params_def ex_consent_open_def)
qed

text \<open>A proposal whose \<open>to\<close> is the empty string: the field is there and differs from
  the acceptor, yet \<open>accept\<close> by anyone returns, creates the acceptance token and sets
  the proposal to \<open>ACCEPTED\<close>.\<close>

theorem accept_empty_recipient_counterexample:
  "\<not> isl (fst ex_proposed_open)
   \<and> proposals (snd (snd ex_proposed_open)) ''id-p''
       = Some \<lparr>token = 0, acceptUrl = None, rejectUrl = None\<rparr>
   \<and> js_get (what (provenance (fst (snd ex_proposed_open) ! 0))) ''to'' = JStr []
   \<and> JStr [] \<noteq> JStr ''did:jis:carol''
   \<and> proposal_state (fst (snd ex_proposed_open)) (snd (snd ex_proposed_open)) ''id-p''
       = Some PROPOSED
   \<and> length (fst (snd ex_proposed_open)) = 1
   \<and> \<not> isl (fst ex_accepted_open)
   \<and> length (fst (snd ex_accepted_open)) = 2
   \<and> proposal_state (fst (snd ex_accepted_open)) (snd (snd ex_accepted_open)) ''id-p''
       = Some ACCEPTED"
proof -
  let ?h = "fst (snd ex_proposed_open)" and ?m = "snd (snd ex_proposed_open)"
  let ?pr = "\<lparr>token = 0, acceptUrl = None, rejectUrl = None\<rparr>"
  note f = consent_inv_facts[OF ex_proposed_open_facts(3)]
  have fresh: "tokens (tibet ?m) (uuid (ex_env ''id-a'')) = None"
    by (simp add: ex_env_def ex_proposed_open_facts)
  have store: "tokens (tibet ?m) ''id-p'' = Some (token ?pr)"
    by (rule f(3)[OF ex_proposed_open_facts(4)])
  have guard: "\<not> (truthy (js_get (what (provenance (?h ! token ?pr))) ''to'')
                  \<and> js_get (what (provenance (?h ! token ?pr))) ''to'' \<noteq> JStr ''did:jis:carol'')"
    by (simp add: ex_proposed_open_facts)
  note a = accept_ok[OF ex_proposed_open_facts(4) store fresh guard, of None ex_stamp,
                     folded ex_accepted_open_def]
  have s: "proposal_state (fst (snd ex_accepted_open)) (snd (snd ex_accepted_open)) ''id-p''
             = Some ACCEPTED"
    unfolding a fst_conv snd_conv
    using proposal_state_respond[OF ex_proposed_open_facts(3) ex_proposed_open_facts(4)
                                    ex_proposed_open_facts(4)]
    by simp
  have l: "length (fst (snd ex_accepted_open)) = 2"
    by (simp add: a respond_heap_length ex_proposed_open_facts)
  have r: "\<not> isl (fst ex_accepted_open)" by (simp add: a)
  show ?thesis
    using ex_proposed_open_facts s l r by simp
qed

end
